theory Spec2Isabelle
  imports Complex_Main "HOL-Library.Word"
begin

section \<open>Numeric model\<close>

text \<open>
  The engine computes in single-precision floating point. The embedding computes in exact
  real arithmetic: \<open>float\<close> and \<open>double\<close> are \<open>real\<close>, \<open>std::pow\<close> is \<open>powr\<close>,
  \<open>std::exp\<close>, \<open>std::sin\<close> and \<open>std::log2\<close> are \<open>exp\<close>, \<open>sin\<close> and \<open>log 2\<close>.
  Rounding, infinities and NaN are outside this model; a division by a zero sample rate
  (which the code turns into an infinity) is outside it too, and every statement that
  depends on the value of such a quotient assumes a positive sample rate. In particular
  the real-valued \<open>clamp\<close> always lands in its interval and the real-valued \<open>dbToLin\<close>
  is always finite, while \<open>std::clamp\<close> returns a NaN argument unchanged and the float
  \<open>std::pow\<close> overflows to an infinity. The output stage, where this difference decides
  whether the written sample is bounded, is therefore modelled a second time over float
  values with the special values, in the section on non-finite values below.
\<close>

definition clamp :: "real \<Rightarrow> real \<Rightarrow> real \<Rightarrow> real" where
  \<comment> \<open>\<open>std::clamp(v, lo, hi)\<close>\<close>
  "clamp v lo hi = (if v < lo then lo else if hi < v then hi else v)"

definition dbToLin :: "real \<Rightarrow> real" where
  "dbToLin db = 10 powr (db / 20)"

definition midiToHzClamp :: "real \<Rightarrow> real" where
  "midiToHzClamp hz = clamp hz 20 12000"

section \<open>Collaborators of the DSP core\<close>

text \<open>
  The smoothers, the state-variable and IIR filters, the noise generator, the motion-energy
  estimators and the soft limiter are declared outside the translated sources. The core is
  modelled over any implementation of them: their states are type parameters and their
  operations are the fields of a record that every function of the core receives.
\<close>

record ProcessSpec =
  spec_sampleRate :: real
  spec_maximumBlockSize :: "32 word"
  spec_numChannels :: "32 word"

datatype StateVariableTPTFilterType = lowpass | bandpass | highpass

text \<open>
  A smoother is \<open>reset\<close> with a sample rate and a ramp length in seconds, given a target and
  asked for its next value. A state-variable filter and an IIR filter are reset, prepared
  and process one sample, the IIR filter with the coefficients it currently holds. The
  noise generator is reseeded and yields white and pink samples. A motion-energy estimator
  is prepared with the sample rate, reset, and processes a control value with a sensitivity.
  Every operation that changes its object returns the new object.
\<close>

record ('sm, 'svf, 'ist, 'co, 'n, 'me) components =
  sm_reset :: "real \<Rightarrow> real \<Rightarrow> 'sm \<Rightarrow> 'sm"
  sm_setTargetValue :: "real \<Rightarrow> 'sm \<Rightarrow> 'sm"
  sm_getNextValue :: "'sm \<Rightarrow> real \<times> 'sm"
  svf_reset :: "'svf \<Rightarrow> 'svf"
  svf_prepare :: "ProcessSpec \<Rightarrow> 'svf \<Rightarrow> 'svf"
  svf_setType :: "StateVariableTPTFilterType \<Rightarrow> 'svf \<Rightarrow> 'svf"
  svf_setCutoffFrequency :: "real \<Rightarrow> 'svf \<Rightarrow> 'svf"
  svf_setResonance :: "real \<Rightarrow> 'svf \<Rightarrow> 'svf"
  svf_processSample :: "nat \<Rightarrow> real \<Rightarrow> 'svf \<Rightarrow> real \<times> 'svf"
  iir_reset :: "'ist \<Rightarrow> 'ist"
  iir_prepare :: "ProcessSpec \<Rightarrow> 'ist \<Rightarrow> 'ist"
  iir_processSample :: "'co \<Rightarrow> real \<Rightarrow> 'ist \<Rightarrow> real \<times> 'ist"
  makeHighPass :: "real \<Rightarrow> real \<Rightarrow> 'co"
  makeLowPass :: "real \<Rightarrow> real \<Rightarrow> 'co"
  noise_reset :: "32 word \<Rightarrow> 'n \<Rightarrow> 'n"
  nextWhite :: "'n \<Rightarrow> real \<times> 'n"
  nextPink :: "'n \<Rightarrow> real \<times> 'n"
  me_prepare :: "real \<Rightarrow> 'me \<Rightarrow> 'me"
  me_reset :: "'me \<Rightarrow> 'me"
  me_process :: "real \<Rightarrow> real \<Rightarrow> 'me \<Rightarrow> real \<times> 'me"
  SoftLimiter_process :: "real \<Rightarrow> real"

text \<open>An IIR filter object: its public \<open>coefficients\<close> member and its delay registers.\<close>

record ('co, 'ist) iir =
  coefficients :: 'co
  registers :: 'ist

section \<open>State of the DSP core\<close>

record ('sm, 'svf, 'ist, 'co, 'n, 'me) dsp =
  sr :: real
  gate :: bool
  phase :: real
  env :: real
  pitchHz :: real
  velocity :: real
  modWheel :: real
  aftertouch :: real
  pitchBend :: real
  motionSustainEnabled :: bool
  envA :: real
  envR :: real
  airS :: 'sm
  toneS :: 'sm
  formantS :: 'sm
  resistS :: 'sm
  vibrDepthS :: 'sm
  vibrRateS :: 'sm
  noiseColorS :: 'sm
  sineAnchorS :: 'sm
  motionSensS :: 'sm
  outGainS :: 'sm
  pitchBP :: 'svf
  form1BP :: 'svf
  form2BP :: 'svf
  hp :: "('co, 'ist) iir"
  lp :: "('co, 'ist) iir"
  noise :: 'n
  meMW :: 'me
  meAT :: 'me
  mePB :: 'me
  mePitch :: 'me

section \<open>Lifecycle and control setters\<close>

definition coeffFromMs :: "('sm, 'svf, 'ist, 'co, 'n, 'me) dsp \<Rightarrow> real \<Rightarrow> real" where
  "coeffFromMs s ms = (let tau = max 0.0001 (ms / 1000) in exp (- 1 / (tau * sr s)))"

definition reset ::
  "('sm, 'svf, 'ist, 'co, 'n, 'me) components \<Rightarrow> ('sm, 'svf, 'ist, 'co, 'n, 'me) dsp
   \<Rightarrow> ('sm, 'svf, 'ist, 'co, 'n, 'me) dsp" where
  "reset C s = s\<lparr>
     gate := False,
     phase := 0,
     env := 0,
     pitchBP := svf_reset C (pitchBP s),
     form1BP := svf_reset C (form1BP s),
     form2BP := svf_reset C (form2BP s),
     hp := (hp s)\<lparr>registers := iir_reset C (registers (hp s))\<rparr>,
     lp := (lp s)\<lparr>registers := iir_reset C (registers (lp s))\<rparr>,
     meMW := me_reset C (meMW s),
     meAT := me_reset C (meAT s),
     mePB := me_reset C (mePB s),
     mePitch := me_reset C (mePitch s)\<rparr>"

definition prepare ::
  "('sm, 'svf, 'ist, 'co, 'n, 'me) components \<Rightarrow> real \<Rightarrow> int \<Rightarrow> int
   \<Rightarrow> ('sm, 'svf, 'ist, 'co, 'n, 'me) dsp \<Rightarrow> ('sm, 'svf, 'ist, 'co, 'n, 'me) dsp" where
  "prepare C sampleRate samplesPerBlock numChannels s =
    (let spec = \<lparr>spec_sampleRate = sampleRate,
                  spec_maximumBlockSize = word_of_int samplesPerBlock,
                  spec_numChannels = word_of_int (max 1 numChannels)\<rparr>
     in reset C (s\<lparr>
       sr := sampleRate,
       pitchBP := svf_setType C bandpass (svf_prepare C spec (svf_reset C (pitchBP s))),
       form1BP := svf_setType C bandpass (svf_prepare C spec (svf_reset C (form1BP s))),
       form2BP := svf_setType C bandpass (svf_prepare C spec (svf_reset C (form2BP s))),
       hp := \<lparr>coefficients = makeHighPass C sampleRate 60,
               registers = iir_prepare C spec (iir_reset C (registers (hp s)))\<rparr>,
       lp := \<lparr>coefficients = makeLowPass C sampleRate 14000,
               registers = iir_prepare C spec (iir_reset C (registers (lp s)))\<rparr>,
       noise := noise_reset C 0x12345678 (noise s),
       meMW := me_reset C (me_prepare C sampleRate (meMW s)),
       meAT := me_reset C (me_prepare C sampleRate (meAT s)),
       mePB := me_reset C (me_prepare C sampleRate (mePB s)),
       mePitch := me_reset C (me_prepare C sampleRate (mePitch s)),
       airS := sm_reset C sampleRate 0.02 (airS s),
       toneS := sm_reset C sampleRate 0.02 (toneS s),
       formantS := sm_reset C sampleRate 0.02 (formantS s),
       resistS := sm_reset C sampleRate 0.02 (resistS s),
       vibrDepthS := sm_reset C sampleRate 0.05 (vibrDepthS s),
       vibrRateS := sm_reset C sampleRate 0.05 (vibrRateS s),
       noiseColorS := sm_reset C sampleRate 0.05 (noiseColorS s),
       sineAnchorS := sm_reset C sampleRate 0.05 (sineAnchorS s),
       motionSensS := sm_reset C sampleRate 0.05 (motionSensS s),
       outGainS := sm_reset C sampleRate 0.05 (outGainS s)\<rparr>))"

definition setPitchHz :: "real \<Rightarrow> ('sm, 'svf, 'ist, 'co, 'n, 'me) dsp \<Rightarrow> ('sm, 'svf, 'ist, 'co, 'n, 'me) dsp" where
  "setPitchHz hz s = s\<lparr>pitchHz := midiToHzClamp hz\<rparr>"

definition setGate :: "bool \<Rightarrow> ('sm, 'svf, 'ist, 'co, 'n, 'me) dsp \<Rightarrow> ('sm, 'svf, 'ist, 'co, 'n, 'me) dsp" where
  "setGate isOn s = s\<lparr>gate := isOn\<rparr>"

definition setVelocity :: "real \<Rightarrow> ('sm, 'svf, 'ist, 'co, 'n, 'me) dsp \<Rightarrow> ('sm, 'svf, 'ist, 'co, 'n, 'me) dsp" where
  "setVelocity vel01 s = s\<lparr>velocity := clamp vel01 0 1\<rparr>"

definition setModWheel :: "real \<Rightarrow> ('sm, 'svf, 'ist, 'co, 'n, 'me) dsp \<Rightarrow> ('sm, 'svf, 'ist, 'co, 'n, 'me) dsp" where
  "setModWheel mw01 s = s\<lparr>modWheel := clamp mw01 0 1\<rparr>"

definition setAftertouch :: "real \<Rightarrow> ('sm, 'svf, 'ist, 'co, 'n, 'me) dsp \<Rightarrow> ('sm, 'svf, 'ist, 'co, 'n, 'me) dsp" where
  "setAftertouch at01 s = s\<lparr>aftertouch := clamp at01 0 1\<rparr>"

definition setPitchBendNorm :: "real \<Rightarrow> ('sm, 'svf, 'ist, 'co, 'n, 'me) dsp \<Rightarrow> ('sm, 'svf, 'ist, 'co, 'n, 'me) dsp" where
  "setPitchBendNorm pbNorm s = s\<lparr>pitchBend := clamp pbNorm (- 1) 1\<rparr>"

text \<open>The thirteen arguments of \<open>setParams\<close>, in the order of its parameter list.\<close>

record params =
  p_air :: real
  p_tone :: real
  p_formant :: real
  p_resistance :: real
  p_vibrDepth :: real
  p_vibrRateHz :: real
  p_noiseColor :: real
  p_sineAnchor :: real
  p_motionSustain :: bool
  p_motionSensitivity :: real
  p_attackMs :: real
  p_releaseMs :: real
  p_outputGainDb :: real

definition setParams ::
  "('sm, 'svf, 'ist, 'co, 'n, 'me) components \<Rightarrow> params
   \<Rightarrow> ('sm, 'svf, 'ist, 'co, 'n, 'me) dsp \<Rightarrow> ('sm, 'svf, 'ist, 'co, 'n, 'me) dsp" where
  "setParams C p s = s\<lparr>
     airS := sm_setTargetValue C (clamp (p_air p) 0 1) (airS s),
     toneS := sm_setTargetValue C (clamp (p_tone p) 0 1) (toneS s),
     formantS := sm_setTargetValue C (clamp (p_formant p) 0 1) (formantS s),
     resistS := sm_setTargetValue C (clamp (p_resistance p) 0 1) (resistS s),
     vibrDepthS := sm_setTargetValue C (clamp (p_vibrDepth p) 0 1) (vibrDepthS s),
     vibrRateS := sm_setTargetValue C (clamp (p_vibrRateHz p) 0.5 8) (vibrRateS s),
     noiseColorS := sm_setTargetValue C (clamp (p_noiseColor p) 0 1) (noiseColorS s),
     sineAnchorS := sm_setTargetValue C (clamp (p_sineAnchor p) 0 1) (sineAnchorS s),
     motionSustainEnabled := p_motionSustain p,
     motionSensS := sm_setTargetValue C (clamp (p_motionSensitivity p) 0 1) (motionSensS s),
     envA := coeffFromMs s (max 1 (p_attackMs p)),
     envR := coeffFromMs s (max 5 (p_releaseMs p)),
     outGainS := sm_setTargetValue C (dbToLin (p_outputGainDb p)) (outGainS s)\<rparr>"

section \<open>One pass of the render loop\<close>

text \<open>
  The body of the loop of \<open>render\<close>, up to and including the final clamp. It reads and
  updates the members of the object and the function-local \<open>static float oscPhase\<close>. That
  variable belongs to the process, not to the object: it is initialised to 0 once, when the
  process first reaches its declaration, and no other function can name it. The model
  passes it in and out beside the object.

  The result holds the sample \<open>y\<close> that the loop adds to the buffer, the new value of the static
  phase and the new object, and three locals of the body that the properties below refer
  to: \<open>hz\<close>, \<open>motionE\<close> and \<open>pressureTarget\<close>.
\<close>

record ('sm, 'svf, 'ist, 'co, 'n, 'me) sample_out =
  out_y :: real
  out_hz :: real
  out_motionE :: real
  out_pressureTarget :: real
  out_oscPhase :: real
  out_dsp :: "('sm, 'svf, 'ist, 'co, 'n, 'me) dsp"

definition render_sample ::
  "('sm, 'svf, 'ist, 'co, 'n, 'me) components \<Rightarrow> real \<Rightarrow> ('sm, 'svf, 'ist, 'co, 'n, 'me) dsp
   \<Rightarrow> ('sm, 'svf, 'ist, 'co, 'n, 'me) sample_out" where
  "render_sample C oscPhase s =
    (let airN = sm_getNextValue C (airS s); air = fst airN;
         toneN = sm_getNextValue C (toneS s); tone = fst toneN;
         formN = sm_getNextValue C (formantS s); form = fst formN;
         resistN = sm_getNextValue C (resistS s); resist = fst resistN;
         vibrDepthN = sm_getNextValue C (vibrDepthS s); vibrDepth = fst vibrDepthN;
         vibrRateN = sm_getNextValue C (vibrRateS s); vibrRate = fst vibrRateN;
         noiseColorN = sm_getNextValue C (noiseColorS s); noiseColor = fst noiseColorN;
         sineAnchorN = sm_getNextValue C (sineAnchorS s); sineAnchor = fst sineAnchorN;
         motionSensN = sm_getNextValue C (motionSensS s); motionSens = fst motionSensN;
         outGainN = sm_getNextValue C (outGainS s); outGain = fst outGainN;

         vibr = sin (phase s * 2 * pi) * vibrDepth;
         vibRateNorm = vibrRate / sr s;
         phase1 = phase s + vibRateNorm;
         phase2 = (if phase1 \<ge> 1 then phase1 - 1 else phase1);

         bendSemis = 2 * pitchBend s;
         pitchMul = 2 powr ((bendSemis + vibr * 0.35) / 12);
         hz = midiToHzClamp (pitchHz s * pitchMul);

         rMW = me_process C (modWheel s) motionSens (meMW s);
         rAT = me_process C (aftertouch s) motionSens (meAT s);
         rPB = me_process C (pitchBend s) motionSens (mePB s);
         rP = me_process C (hz / 2000) motionSens (mePitch s);
         motionE = (if motionSustainEnabled s
                    then min 1 (fst rMW + fst rAT + fst rPB + 0.5 * fst rP) else 0);

         pressureTarget =
           (if gate s
            then (let velSpeak = 0.20 + 0.80 * velocity s;
                      wheelPressure = modWheel s;
                      motionPressure = motionE
                  in clamp (velSpeak * 0.55 + wheelPressure * 0.75 + motionPressure * 0.60) 0 1)
            else 0);

         coeff = (if pressureTarget > env s then envA s else envR s);
         env1 = pressureTarget + coeff * (env s - pressureTarget);

         rW = nextWhite C (noise s); w = fst rW;
         rPk = nextPink C (snd rW); p = fst rPk;
         n = (1 - noiseColor) * w + noiseColor * p;

         oscPhase1 = oscPhase + hz / sr s;
         oscPhase2 = (if oscPhase1 \<ge> 1 then oscPhase1 - 1 else oscPhase1);
         sine = sin (oscPhase2 * 2 * pi);

         resistanceMix = clamp resist 0 1;
         excitation = n * (1 - 0.35 * resistanceMix) + sine * (0.15 * sineAnchor);

         drive = air * env1;
         x = excitation * drive;

         pitchBP1 = svf_setResonance C (0.7 + 0.25 * resistanceMix)
                      (svf_setCutoffFrequency C hz (pitchBP s));

         f1A = 750; f2A = 1200;
         f1E = 450; f2E = 2000;
         f1 = (1 - form) * f1A + form * f1E;
         f2 = (1 - form) * f2A + form * f2E;
         track = clamp (log 2 (hz / 220) * 0.08) (- 0.12) 0.18;
         f1t = f1 * 2 powr track;
         f2t = f2 * 2 powr track;

         form1BP1 = svf_setResonance C (0.55 + 0.25 * resistanceMix)
                      (svf_setCutoffFrequency C (clamp f1t 120 6000) (form1BP s));
         form2BP1 = svf_setResonance C (0.45 + 0.20 * resistanceMix)
                      (svf_setCutoffFrequency C (clamp f2t 200 8000) (form2BP s));

         rPitch = svf_processSample C 0 x pitchBP1;
         rF1 = svf_processSample C 0 x form1BP1;
         rF2 = svf_processSample C 0 x form2BP1;

         y0 = 0.70 * fst rPitch + 0.40 * fst rF1 + 0.30 * fst rF2;

         hpHz = 40 + (1 - tone) * 120;
         lpHz = 4500 + tone * 11500;
         hpCo = makeHighPass C (sr s) hpHz;
         lpCo = makeLowPass C (sr s) lpHz;

         rHP = iir_processSample C hpCo y0 (registers (hp s));
         rLP = iir_processSample C lpCo (fst rHP) (registers (lp s));

         y1 = SoftLimiter_process C (fst rLP * (1.2 + 0.9 * resistanceMix));
         y2 = y1 * outGain;
         y3 = clamp y2 (- 1) 1
     in \<lparr>out_y = y3,
         out_hz = hz,
         out_motionE = motionE,
         out_pressureTarget = pressureTarget,
         out_oscPhase = oscPhase2,
         out_dsp = s\<lparr>
           phase := phase2,
           env := env1,
           airS := snd airN,
           toneS := snd toneN,
           formantS := snd formN,
           resistS := snd resistN,
           vibrDepthS := snd vibrDepthN,
           vibrRateS := snd vibrRateN,
           noiseColorS := snd noiseColorN,
           sineAnchorS := snd sineAnchorN,
           motionSensS := snd motionSensN,
           outGainS := snd outGainN,
           pitchBP := snd rPitch,
           form1BP := snd rF1,
           form2BP := snd rF2,
           hp := \<lparr>coefficients = hpCo, registers = snd rHP\<rparr>,
           lp := \<lparr>coefficients = lpCo, registers = snd rLP\<rparr>,
           noise := snd rPk,
           meMW := (if motionSustainEnabled s then snd rMW else meMW s),
           meAT := (if motionSustainEnabled s then snd rAT else meAT s),
           mePB := (if motionSustainEnabled s then snd rPB else mePB s),
           mePitch := (if motionSustainEnabled s then snd rP else mePitch s)\<rparr>\<rparr>)"

section \<open>The output buffer and the render loop\<close>

text \<open>
  An audio buffer is a list of channels, each a list of samples. A write through the
  pointer of a channel the buffer does not have, or at an index outside the channel, is
  undefined behaviour in the code; the model makes it an error value.
\<close>

datatype error = ChannelOutOfRange | SampleOutOfRange

type_synonym AudioBuffer = "real list list"

definition addToSample :: "AudioBuffer \<Rightarrow> nat \<Rightarrow> int \<Rightarrow> real \<Rightarrow> error + AudioBuffer" where
  \<comment> \<open>\<open>out.getWritePointer(c)[j] += y\<close>\<close>
  "addToSample out c j y =
    (if length out \<le> c then Inl ChannelOutOfRange
     else if j < 0 \<or> int (length (out ! c)) \<le> j then Inl SampleOutOfRange
     else Inr (out[c := (out ! c)[nat j := (out ! c) ! nat j + y]]))"

function addToChannels :: "AudioBuffer \<Rightarrow> nat \<Rightarrow> nat \<Rightarrow> int \<Rightarrow> real \<Rightarrow> error + AudioBuffer" where
  \<comment> \<open>\<open>for (; c < chs; ++c) out.getWritePointer(c)[j] += y\<close>\<close>
  "addToChannels out c chs j y =
    (if c < chs
     then (case addToSample out c j y of
             Inl e \<Rightarrow> Inl e
           | Inr out1 \<Rightarrow> addToChannels out1 (c + 1) chs j y)
     else Inr out)"
  by pat_completeness auto
termination
  by (relation "measure (\<lambda>(out, c, chs, j, y). chs - c)") auto

declare addToChannels.simps [simp del]

function render_loop ::
  "('sm, 'svf, 'ist, 'co, 'n, 'me) components \<Rightarrow> nat \<Rightarrow> int \<Rightarrow> int \<Rightarrow> int
   \<Rightarrow> AudioBuffer \<Rightarrow> real \<Rightarrow> ('sm, 'svf, 'ist, 'co, 'n, 'me) dsp
   \<Rightarrow> error + AudioBuffer \<times> real \<times> ('sm, 'svf, 'ist, 'co, 'n, 'me) dsp" where
  "render_loop C chs startSample numSamples i out oscPhase s =
    (if i < numSamples
     then (let r = render_sample C oscPhase s in
           case addToSample out 0 (startSample + i) (out_y r) of
             Inl e \<Rightarrow> Inl e
           | Inr out1 \<Rightarrow>
              (case addToChannels out1 1 chs (startSample + i) (out_y r) of
                 Inl e \<Rightarrow> Inl e
               | Inr out2 \<Rightarrow>
                   render_loop C chs startSample numSamples (i + 1) out2 (out_oscPhase r) (out_dsp r)))
     else Inr (out, oscPhase, s))"
  by pat_completeness auto
termination
  by (relation "measure (\<lambda>(C, chs, startSample, numSamples, i, out, oscPhase, s). nat (numSamples - i))") auto

declare render_loop.simps [simp del]

definition render ::
  "('sm, 'svf, 'ist, 'co, 'n, 'me) components \<Rightarrow> AudioBuffer \<Rightarrow> int \<Rightarrow> int
   \<Rightarrow> real \<Rightarrow> ('sm, 'svf, 'ist, 'co, 'n, 'me) dsp
   \<Rightarrow> error + AudioBuffer \<times> real \<times> ('sm, 'svf, 'ist, 'co, 'n, 'me) dsp" where
  "render C out startSample numSamples oscPhase s =
    (let chs = length out
     in render_loop C chs startSample numSamples 0 out oscPhase s)"

section \<open>The voice: pitch glide and per-sample orchestration\<close>

definition midiToHz :: "int \<Rightarrow> real" where
  "midiToHz midiNote = 440 * 2 powr (real_of_int (midiNote - 69) / 12)"

text \<open>
  The members of the voice. \<open>isVoiceActive\<close> is the answer of the inherited query of that
  name, which the synthesiser framework maintains; \<open>clearCurrentNote\<close> makes it false.
\<close>

record ('sm, 'svf, 'ist, 'co, 'n, 'me) voice =
  voice_sr :: real
  targetHz :: real
  currentHz :: real
  glideCoeff :: real
  portamentoMs :: real
  pitchBendNorm :: real
  modWheel01 :: real
  aftertouch01 :: real
  isVoiceActive :: bool
  voice_dsp :: "('sm, 'svf, 'ist, 'co, 'n, 'me) dsp"

definition voice_coeffFromMs :: "('sm, 'svf, 'ist, 'co, 'n, 'me) voice \<Rightarrow> real \<Rightarrow> real" where
  "voice_coeffFromMs v ms = (let tau = max 0.0001 (ms / 1000) in exp (- 1 / (tau * voice_sr v)))"

definition setCurrentPlaybackSampleRate ::
  "('sm, 'svf, 'ist, 'co, 'n, 'me) components \<Rightarrow> real
   \<Rightarrow> ('sm, 'svf, 'ist, 'co, 'n, 'me) voice \<Rightarrow> ('sm, 'svf, 'ist, 'co, 'n, 'me) voice" where
  "setCurrentPlaybackSampleRate C newRate v =
    (let v1 = v\<lparr>voice_sr := newRate\<rparr>;
         v2 = v1\<lparr>voice_dsp := prepare C (voice_sr v1) 512 2 (voice_dsp v1)\<rparr>
     in v2\<lparr>glideCoeff := voice_coeffFromMs v2 (max 1 (portamentoMs v2))\<rparr>)"

definition startNote ::
  "int \<Rightarrow> real \<Rightarrow> ('sm, 'svf, 'ist, 'co, 'n, 'me) voice \<Rightarrow> ('sm, 'svf, 'ist, 'co, 'n, 'me) voice" where
  "startNote midiNoteNumber vel v =
    (let v1 = v\<lparr>targetHz := midiToHz midiNoteNumber\<rparr>;
         v2 = (if \<not> isVoiceActive v1 then v1\<lparr>currentHz := targetHz v1\<rparr> else v1)
     in v2\<lparr>voice_dsp := setVelocity (clamp vel 0 1) (setGate True (voice_dsp v2))\<rparr>)"

definition stopNote ::
  "bool \<Rightarrow> ('sm, 'svf, 'ist, 'co, 'n, 'me) voice \<Rightarrow> ('sm, 'svf, 'ist, 'co, 'n, 'me) voice" where
  "stopNote allowTailOff v =
    (let v1 = v\<lparr>voice_dsp := setGate False (voice_dsp v)\<rparr>
     in if \<not> allowTailOff then v1\<lparr>isVoiceActive := False\<rparr> else v1)"

definition pitchWheelMoved ::
  "int \<Rightarrow> ('sm, 'svf, 'ist, 'co, 'n, 'me) voice \<Rightarrow> ('sm, 'svf, 'ist, 'co, 'n, 'me) voice" where
  "pitchWheelMoved newPitchWheelValue v =
    (let norm = real_of_int (newPitchWheelValue - 8192) / 8192;
         v1 = v\<lparr>pitchBendNorm := clamp norm (- 1) 1\<rparr>
     in v1\<lparr>voice_dsp := setPitchBendNorm (pitchBendNorm v1) (voice_dsp v1)\<rparr>)"

definition controllerMoved ::
  "int \<Rightarrow> int \<Rightarrow> ('sm, 'svf, 'ist, 'co, 'n, 'me) voice \<Rightarrow> ('sm, 'svf, 'ist, 'co, 'n, 'me) voice" where
  "controllerMoved controllerNumber newControllerValue v =
    (if controllerNumber = 1
     then (let v1 = v\<lparr>modWheel01 := clamp (real_of_int newControllerValue / 127) 0 1\<rparr>
           in v1\<lparr>voice_dsp := setModWheel (modWheel01 v1) (voice_dsp v1)\<rparr>)
     else v)"

definition aftertouchChanged ::
  "int \<Rightarrow> ('sm, 'svf, 'ist, 'co, 'n, 'me) voice \<Rightarrow> ('sm, 'svf, 'ist, 'co, 'n, 'me) voice" where
  "aftertouchChanged newAftertouchValue v =
    (let v1 = v\<lparr>aftertouch01 := clamp (real_of_int newAftertouchValue / 127) 0 1\<rparr>
     in v1\<lparr>voice_dsp := setAftertouch (aftertouch01 v1) (voice_dsp v1)\<rparr>)"





section \<open>Trajectories of the render loop\<close>

text \<open>
  Successive passes of the loop body, on the pair of the static oscillator phase and the
  object: \<open>dsp_after C k st\<close> is the pair after \<open>k\<close> passes from \<open>st\<close>, and
  \<open>dsp_sample C k st\<close> is the sample that pass number \<open>k\<close> (counted from 0) produces.
\<close>

definition dsp_step ::
  "('sm, 'svf, 'ist, 'co, 'n, 'me) components \<Rightarrow> real \<times> ('sm, 'svf, 'ist, 'co, 'n, 'me) dsp
   \<Rightarrow> real \<times> ('sm, 'svf, 'ist, 'co, 'n, 'me) dsp" where
  "dsp_step C st = (let r = render_sample C (fst st) (snd st) in (out_oscPhase r, out_dsp r))"

definition dsp_after ::
  "('sm, 'svf, 'ist, 'co, 'n, 'me) components \<Rightarrow> nat \<Rightarrow> real \<times> ('sm, 'svf, 'ist, 'co, 'n, 'me) dsp
   \<Rightarrow> real \<times> ('sm, 'svf, 'ist, 'co, 'n, 'me) dsp" where
  "dsp_after C k st = (dsp_step C ^^ k) st"

definition dsp_sample ::
  "('sm, 'svf, 'ist, 'co, 'n, 'me) components \<Rightarrow> nat \<Rightarrow> real \<times> ('sm, 'svf, 'ist, 'co, 'n, 'me) dsp
   \<Rightarrow> real" where
  "dsp_sample C k st = out_y (render_sample C (fst (dsp_after C k st)) (snd (dsp_after C k st)))"

definition env_after ::
  "('sm, 'svf, 'ist, 'co, 'n, 'me) components \<Rightarrow> nat \<Rightarrow> real \<times> ('sm, 'svf, 'ist, 'co, 'n, 'me) dsp
   \<Rightarrow> real" where
  \<comment> \<open>the envelope value after \<open>k\<close> passes\<close>
  "env_after C k st = env (snd (dsp_after C k st))"

definition target_at ::
  "('sm, 'svf, 'ist, 'co, 'n, 'me) components \<Rightarrow> nat \<Rightarrow> real \<times> ('sm, 'svf, 'ist, 'co, 'n, 'me) dsp
   \<Rightarrow> real" where
  \<comment> \<open>the pressure target that pass number \<open>k\<close> computes\<close>
  "target_at C k st =
     out_pressureTarget (render_sample C (fst (dsp_after C k st)) (snd (dsp_after C k st)))"

definition tone_at ::
  "('sm, 'svf, 'ist, 'co, 'n, 'me) components \<Rightarrow> nat \<Rightarrow> real \<times> ('sm, 'svf, 'ist, 'co, 'n, 'me) dsp
   \<Rightarrow> real" where
  \<comment> \<open>the smoothed tone control that pass number \<open>k\<close> reads\<close>
  "tone_at C k st = fst (sm_getNextValue C (toneS (snd (dsp_after C k st))))"

text \<open>
  The motion-energy sum in the words of the specification: the outputs of the four
  estimators for mod wheel, aftertouch, pitch bend and the pitch-derived cue \<open>hz / 2000\<close>,
  the last weighted by 0.5, all at the smoothed motion sensitivity of the pass.
\<close>

definition motion_sum ::
  "('sm, 'svf, 'ist, 'co, 'n, 'me) components \<Rightarrow> real \<Rightarrow> ('sm, 'svf, 'ist, 'co, 'n, 'me) dsp
   \<Rightarrow> real" where
  "motion_sum C oscPhase s =
    (let motionSens = fst (sm_getNextValue C (motionSensS s));
         hz = out_hz (render_sample C oscPhase s)
     in fst (me_process C (modWheel s) motionSens (meMW s))
        + fst (me_process C (aftertouch s) motionSens (meAT s))
        + fst (me_process C (pitchBend s) motionSens (mePB s))
        + 0.5 * fst (me_process C (hz / 2000) motionSens (mePitch s)))"

section \<open>Concrete collaborators for worked examples\<close>

text \<open>
  The simplest collaborators: a smoother whose ramp has length zero (its state is its
  value), filters that pass their input through, a silent noise generator, estimators that
  report no motion, and the rational soft limiter \<open>x / (1 + |x|)\<close>. The worked examples
  below run the core with them.
\<close>

definition plain_components :: "(real, unit, unit, real, unit, unit) components" where
  "plain_components = \<lparr>
     sm_reset = (\<lambda>rate ramp v. v),
     sm_setTargetValue = (\<lambda>t v. t),
     sm_getNextValue = (\<lambda>v. (v, v)),
     svf_reset = (\<lambda>f. f),
     svf_prepare = (\<lambda>spec f. f),
     svf_setType = (\<lambda>ty f. f),
     svf_setCutoffFrequency = (\<lambda>hz f. f),
     svf_setResonance = (\<lambda>q f. f),
     svf_processSample = (\<lambda>ch x f. (x, f)),
     iir_reset = (\<lambda>f. f),
     iir_prepare = (\<lambda>spec f. f),
     iir_processSample = (\<lambda>co x f. (x, f)),
     makeHighPass = (\<lambda>rate hz. hz),
     makeLowPass = (\<lambda>rate hz. hz),
     noise_reset = (\<lambda>seed g. g),
     nextWhite = (\<lambda>g. (0, g)),
     nextPink = (\<lambda>g. (0, g)),
     me_prepare = (\<lambda>rate m. m),
     me_reset = (\<lambda>m. m),
     me_process = (\<lambda>v sens m. (0, m)),
     SoftLimiter_process = (\<lambda>x. x / (1 + \<bar>x\<bar>))\<rparr>"

definition zero_dsp :: "(real, unit, unit, real, unit, unit) dsp" where
  \<comment> \<open>an object with every member zero\<close>
  "zero_dsp = \<lparr>
     sr = 0, gate = False, phase = 0, env = 0, pitchHz = 0, velocity = 0, modWheel = 0,
     aftertouch = 0, pitchBend = 0, motionSustainEnabled = False, envA = 0, envR = 0,
     airS = 0, toneS = 0, formantS = 0, resistS = 0, vibrDepthS = 0, vibrRateS = 0,
     noiseColorS = 0, sineAnchorS = 0, motionSensS = 0, outGainS = 0,
     pitchBP = (), form1BP = (), form2BP = (),
     hp = \<lparr>coefficients = 0, registers = ()\<rparr>,
     lp = \<lparr>coefficients = 0, registers = ()\<rparr>,
     noise = (), meMW = (), meAT = (), mePB = (), mePitch = ()\<rparr>"


definition default_params :: params where
  "default_params = \<lparr>
     p_air = 1, p_tone = 1 / 2, p_formant = 1 / 2, p_resistance = 0, p_vibrDepth = 0,
     p_vibrRateHz = 5, p_noiseColor = 0, p_sineAnchor = 1, p_motionSustain = False,
     p_motionSensitivity = 0, p_attackMs = 1, p_releaseMs = 5, p_outputGainDb = 0\<rparr>"

section \<open>The process-wide oscillator phase across calls\<close>

text \<open>
  The state of a process that uses the core is the pair of the static \<open>oscPhase\<close> of
  \<open>render\<close> and the object. A member function other than \<open>render\<close> runs on the object;
  the static is local to \<open>render\<close>, so such a call cannot name it and leaves it as it is.
\<close>

definition on_object ::
  "(('sm, 'svf, 'ist, 'co, 'n, 'me) dsp \<Rightarrow> ('sm, 'svf, 'ist, 'co, 'n, 'me) dsp)
   \<Rightarrow> real \<times> ('sm, 'svf, 'ist, 'co, 'n, 'me) dsp \<Rightarrow> real \<times> ('sm, 'svf, 'ist, 'co, 'n, 'me) dsp" where
  "on_object f st = (fst st, f (snd st))"

text \<open>
  A run of one note: \<open>prepare(48000, 512, 2)\<close>, \<open>setParams\<close> with the example parameters,
  \<open>setPitchHz(12000)\<close>, \<open>setPitchBendNorm(0)\<close>, \<open>setModWheel(0)\<close>, \<open>setVelocity(1)\<close>,
  \<open>setGate(true)\<close>, then one sample rendered into a cleared one-channel buffer.
\<close>

definition one_note_setup ::
  "('sm, 'svf, 'ist, 'co, 'n, 'me) components \<Rightarrow> ('sm, 'svf, 'ist, 'co, 'n, 'me) dsp
   \<Rightarrow> ('sm, 'svf, 'ist, 'co, 'n, 'me) dsp" where
  "one_note_setup C s =
     setGate True (setVelocity 1 (setModWheel 0 (setPitchBendNorm 0 (setPitchHz 12000
       (setParams C default_params (prepare C 48000 512 2 s))))))"

definition one_note_run ::
  "('sm, 'svf, 'ist, 'co, 'n, 'me) components \<Rightarrow> real \<times> ('sm, 'svf, 'ist, 'co, 'n, 'me) dsp
   \<Rightarrow> error + AudioBuffer \<times> real \<times> ('sm, 'svf, 'ist, 'co, 'n, 'me) dsp" where
  "one_note_run C st =
    (let st1 = on_object (one_note_setup C) st
     in render C [[0]] 0 1 (fst st1) (snd st1))"

section \<open>Non-finite float values at the output stage\<close>

text \<open>
  A float is a finite value, an infinity or NaN. Comparison and multiplication follow
  IEEE 754 on the special values: every comparison with NaN is false, and zero times an
  infinity is NaN. Products of finite values are taken exactly (rounding and overflow of
  finite products are not modelled).
\<close>

datatype fl = Finite real | PInf | NInf | NaN

fun fl_less :: "fl \<Rightarrow> fl \<Rightarrow> bool" where
  "fl_less NaN b = False"
| "fl_less a NaN = False"
| "fl_less (Finite x) (Finite y) = (x < y)"
| "fl_less (Finite x) PInf = True"
| "fl_less (Finite x) NInf = False"
| "fl_less PInf b = False"
| "fl_less NInf NInf = False"
| "fl_less NInf b = True"

fun fl_mult :: "fl \<Rightarrow> fl \<Rightarrow> fl" where
  "fl_mult NaN b = NaN"
| "fl_mult a NaN = NaN"
| "fl_mult (Finite x) (Finite y) = Finite (x * y)"
| "fl_mult (Finite x) PInf = (if x = 0 then NaN else if 0 < x then PInf else NInf)"
| "fl_mult (Finite x) NInf = (if x = 0 then NaN else if 0 < x then NInf else PInf)"
| "fl_mult PInf (Finite y) = (if y = 0 then NaN else if 0 < y then PInf else NInf)"
| "fl_mult NInf (Finite y) = (if y = 0 then NaN else if 0 < y then NInf else PInf)"
| "fl_mult PInf PInf = PInf"
| "fl_mult PInf NInf = NInf"
| "fl_mult NInf PInf = NInf"
| "fl_mult NInf NInf = PInf"

definition fl_clamp :: "fl \<Rightarrow> fl \<Rightarrow> fl \<Rightarrow> fl" where
  \<comment> \<open>\<open>std::clamp(v, lo, hi)\<close>, that is \<open>(v < lo) ? lo : (hi < v) ? hi : v\<close>\<close>
  "fl_clamp v lo hi = (if fl_less v lo then lo else if fl_less hi v then hi else v)"

definition FLT_MAX :: real where
  \<comment> \<open>the largest finite single-precision value, \<open>(2 - 2^-23) * 2^127\<close>\<close>
  "FLT_MAX = (2 ^ 24 - 1) * 2 ^ 104"

definition fl_dbToLin :: "real \<Rightarrow> fl" where
  \<comment> \<open>\<open>dbToLin\<close> in float: \<open>std::pow\<close> returns \<open>+inf\<close> when the power exceeds \<open>FLT_MAX\<close>\<close>
  "fl_dbToLin db = (if FLT_MAX < 10 powr (db / 20) then PInf else Finite (10 powr (db / 20)))"

definition output_stage :: "fl \<Rightarrow> fl \<Rightarrow> fl" where
  \<comment> \<open>\<open>y *= outGain; y = std::clamp(y, -1.0f, 1.0f);\<close> the value then added to the buffer\<close>
  "output_stage y outGain = fl_clamp (fl_mult y outGain) (Finite (- 1)) (Finite 1)"

definition within_unit :: "fl \<Rightarrow> bool" where
  \<comment> \<open>the value lies in \<open>[-1, 1]\<close>\<close>
  "within_unit v = (case v of Finite x \<Rightarrow> - 1 \<le> x \<and> x \<le> 1 | PInf \<Rightarrow> False | NInf \<Rightarrow> False | NaN \<Rightarrow> False)"

section \<open>Facts about the loop body and the buffer writes\<close>

lemma clamp_bounds: "lo \<le> hi \<Longrightarrow> lo \<le> clamp v lo hi \<and> clamp v lo hi \<le> hi"
  by (simp add: clamp_def)

lemma dsp_after_0 [simp]: "dsp_after C 0 st = st"
  by (simp add: dsp_after_def)

lemma dsp_after_Suc: "dsp_after C (Suc k) st = dsp_step C (dsp_after C k st)"
  by (simp add: dsp_after_def)

lemma dsp_after_shift: "dsp_after C (Suc k) st = dsp_after C k (dsp_step C st)"
  by (simp add: dsp_after_def funpow_swap1)

lemma dsp_sample_shift: "dsp_sample C (Suc k) st = dsp_sample C k (dsp_step C st)"
  by (simp only: dsp_sample_def dsp_after_shift)

lemma addToSample_Inr:
  "addToSample out c j y = Inr out' \<longleftrightarrow>
     c < length out \<and> 0 \<le> j \<and> j < int (length (out ! c))
     \<and> out' = out[c := (out ! c)[nat j := (out ! c) ! nat j + y]]"
  by (auto simp: addToSample_def)

lemma addToChannels_Inr:
  "addToChannels out c chs j y = Inr out' \<Longrightarrow> chs \<le> length out \<Longrightarrow>
     length out' = length out
     \<and> (\<forall>k < length out. out' ! k =
           (if c \<le> k \<and> k < chs then (out ! k)[nat j := (out ! k) ! nat j + y] else out ! k))
     \<and> (\<forall>k. c \<le> k \<and> k < chs \<longrightarrow> 0 \<le> j \<and> j < int (length (out ! k)))"
proof (induction out c chs j y arbitrary: out' rule: addToChannels.induct)
  case (1 out c chs j y)
  show ?case
  proof (cases "c < chs")
    case False
    with "1.prems" show ?thesis by (auto simp: addToChannels.simps [of out c])
  next
    case True
    with "1.prems" obtain out1 where a: "addToSample out c j y = Inr out1"
      and r: "addToChannels out1 (c + 1) chs j y = Inr out'"
      by (auto simp: addToChannels.simps [of out c] split: sum.splits)
    from a have o1: "c < length out" "0 \<le> j" "j < int (length (out ! c))"
      "out1 = out[c := (out ! c)[nat j := (out ! c) ! nat j + y]]"
      by (simp_all add: addToSample_Inr)
    have l1: "length out1 = length out" using o1 by simp
    from "1.IH" [OF True a r] "1.prems"(2) l1
    have ih: "length out' = length out1"
      "\<forall>k < length out1. out' ! k =
           (if c + 1 \<le> k \<and> k < chs then (out1 ! k)[nat j := (out1 ! k) ! nat j + y] else out1 ! k)"
      "\<forall>k. c + 1 \<le> k \<and> k < chs \<longrightarrow> 0 \<le> j \<and> j < int (length (out1 ! k))"
      by simp_all
    have A: "length out' = length out" using ih(1) l1 by simp
    have B: "out' ! k = (if c \<le> k \<and> k < chs then (out ! k)[nat j := (out ! k) ! nat j + y] else out ! k)"
      if "k < length out" for k
    proof (cases "k = c")
      case True
      then show ?thesis using ih(2) that l1 o1 \<open>c < chs\<close> by simp
    next
      case False
      then have "out1 ! k = out ! k" using o1(4) by simp
      then show ?thesis using ih(2) that l1 False by auto
    qed
    have Cc: "0 \<le> j \<and> j < int (length (out ! k))" if "c \<le> k \<and> k < chs" for k
    proof (cases "k = c")
      case True
      then show ?thesis using o1 by simp
    next
      case False
      then have "out1 ! k = out ! k" using o1(4) by simp
      then show ?thesis using ih(3) that False by (metis Suc_eq_plus1 Suc_leI le_neq_implies_less)
    qed
    show ?thesis using A B Cc by blast
  qed
qed

lemma write_step:
  assumes a: "addToSample out 0 j y = Inr out1"
    and b: "addToChannels out1 1 (length out) j y = Inr out2"
  shows "out \<noteq> [] \<and> 0 \<le> j \<and> (\<forall>k < length out. j < int (length (out ! k)))
     \<and> length out2 = length out
     \<and> (\<forall>k < length out. out2 ! k = (out ! k)[nat j := (out ! k) ! nat j + y])"
proof -
  from a have o1: "0 < length out" "0 \<le> j" "j < int (length (out ! 0))"
    "out1 = out[0 := (out ! 0)[nat j := (out ! 0) ! nat j + y]]"
    by (simp_all add: addToSample_Inr)
  have l1: "length out1 = length out" using o1(4) by simp
  from addToChannels_Inr [OF b] l1
  have r: "length out2 = length out1"
    "\<forall>k < length out1. out2 ! k =
       (if 1 \<le> k \<and> k < length out then (out1 ! k)[nat j := (out1 ! k) ! nat j + y] else out1 ! k)"
    "\<forall>k. 1 \<le> k \<and> k < length out \<longrightarrow> 0 \<le> j \<and> j < int (length (out1 ! k))"
    by simp_all
  have rng: "j < int (length (out ! k))" if "k < length out" for k
  proof (cases "k = 0")
    case True
    then show ?thesis using o1(3) by simp
  next
    case False
    then have "out1 ! k = out ! k" using o1(4) by simp
    then show ?thesis using r(3) that False by (metis One_nat_def Suc_leI neq0_conv)
  qed
  have upd: "out2 ! k = (out ! k)[nat j := (out ! k) ! nat j + y]" if "k < length out" for k
  proof (cases "k = 0")
    case True
    then show ?thesis using r(2) l1 o1 by simp
  next
    case False
    then have "out1 ! k = out ! k" using o1(4) by simp
    then show ?thesis using r(2) l1 that False by simp
  qed
  show ?thesis using o1(1,2) rng upd r(1) l1 by auto
qed

lemma render_loop_done:
  "\<not> i < n \<Longrightarrow> render_loop C chs start n i out osc s = Inr (out, osc, s)"
  by (subst render_loop.simps) simp

lemma render_loop_step:
  "i < n \<Longrightarrow> render_loop C chs start n i out osc s =
    (case addToSample out 0 (start + i) (out_y (render_sample C osc s)) of
       Inl e \<Rightarrow> Inl e
     | Inr out1 \<Rightarrow>
        (case addToChannels out1 1 chs (start + i) (out_y (render_sample C osc s)) of
           Inl e \<Rightarrow> Inl e
         | Inr out2 \<Rightarrow>
             render_loop C chs start n (i + 1) out2
               (out_oscPhase (render_sample C osc s)) (out_dsp (render_sample C osc s))))"
  by (subst render_loop.simps) (simp add: Let_def)

lemma render_loop_Inr:
  "render_loop C chs start n i out osc s = Inr (out', osc', s') \<Longrightarrow> chs = length out \<Longrightarrow>
   length out' = length out
   \<and> (osc', s') = dsp_after C (nat (n - i)) (osc, s)
   \<and> (\<forall>c < length out. length (out' ! c) = length (out ! c)
        \<and> (\<forall>m < length (out ! c). out' ! c ! m = out ! c ! m +
              (if start + i \<le> int m \<and> int m < start + n
               then dsp_sample C (nat (int m - (start + i))) (osc, s) else 0)))"
proof (induction C chs start n i out osc s rule: render_loop.induct)
  case (1 C chs start n i out osc s)
  show ?case
  proof (cases "i < n")
    case False
    with "1.prems" show ?thesis
      by (auto simp: render_loop_done)
  next
    case True
    define r where "r = render_sample C osc s"
    define j where "j = start + i"
    from "1.prems" True obtain out1 out2 where
      a: "addToSample out 0 j (out_y r) = Inr out1" and
      b: "addToChannels out1 1 chs j (out_y r) = Inr out2" and
      c: "render_loop C chs start n (i + 1) out2 (out_oscPhase r) (out_dsp r) = Inr (out', osc', s')"
      by (auto simp: render_loop_step r_def j_def split: sum.splits)
    from write_step [OF a] b "1.prems"(2)
    have w: "out \<noteq> []" "0 \<le> j" "\<forall>k < length out. j < int (length (out ! k))"
      "length out2 = length out"
      "\<forall>k < length out. out2 ! k = (out ! k)[nat j := (out ! k) ! nat j + out_y r]"
      by simp_all
    from "1.IH" [OF True r_def a [unfolded j_def] b [unfolded j_def] c] "1.prems"(2) w(4)
    have ih: "length out' = length out2"
      "(osc', s') = dsp_after C (nat (n - (i + 1))) (out_oscPhase r, out_dsp r)"
      "\<forall>c < length out2. length (out' ! c) = length (out2 ! c)
        \<and> (\<forall>m < length (out2 ! c). out' ! c ! m = out2 ! c ! m +
              (if start + (i + 1) \<le> int m \<and> int m < start + n
               then dsp_sample C (nat (int m - (start + (i + 1)))) (out_oscPhase r, out_dsp r) else 0))"
      by simp_all
    have st: "dsp_step C (osc, s) = (out_oscPhase r, out_dsp r)"
      by (simp add: dsp_step_def r_def Let_def)
    have nn: "nat (n - i) = Suc (nat (n - (i + 1)))" using True by simp
    have A: "(osc', s') = dsp_after C (nat (n - i)) (osc, s)"
      by (simp only: nn dsp_after_shift st ih(2))
    have y0: "dsp_sample C 0 (osc, s) = out_y r"
      by (simp add: dsp_sample_def r_def)
    have B: "length (out' ! c) = length (out ! c)
        \<and> (\<forall>m < length (out ! c). out' ! c ! m = out ! c ! m +
              (if start + i \<le> int m \<and> int m < start + n
               then dsp_sample C (nat (int m - (start + i))) (osc, s) else 0))"
      if cl: "c < length out" for c
    proof -
      have o2: "out2 ! c = (out ! c)[nat j := (out ! c) ! nat j + out_y r]"
        using w(5) cl by simp
      have jl: "nat j < length (out ! c)" using w(2,3) cl by auto
      have len: "length (out' ! c) = length (out ! c)"
        using ih(3) cl w(4) o2 by simp
      have el: "out' ! c ! m = out ! c ! m +
              (if start + i \<le> int m \<and> int m < start + n
               then dsp_sample C (nat (int m - (start + i))) (osc, s) else 0)"
        if ml: "m < length (out ! c)" for m
      proof -
        have e1: "out' ! c ! m = out2 ! c ! m +
              (if start + (i + 1) \<le> int m \<and> int m < start + n
               then dsp_sample C (nat (int m - (start + (i + 1)))) (out_oscPhase r, out_dsp r) else 0)"
          using ih(3) cl w(4) o2 ml by simp
        show ?thesis
        proof (cases "int m = j")
          case True
          then have "m = nat j" by simp
          then have "out2 ! c ! m = out ! c ! m + out_y r" using o2 jl by simp
          moreover have "nat (int m - (start + i)) = 0" using True j_def by simp
          ultimately show ?thesis using e1 True \<open>i < n\<close> y0 by (simp add: j_def)
        next
          case False
          then have "m \<noteq> nat j" using w(2) by auto
          then have o: "out2 ! c ! m = out ! c ! m" using o2 by simp
          show ?thesis
          proof (cases "start + (i + 1) \<le> int m \<and> int m < start + n")
            case True
            then have "nat (int m - (start + i)) = Suc (nat (int m - (start + (i + 1))))"
              by linarith
            then have "dsp_sample C (nat (int m - (start + i))) (osc, s)
               = dsp_sample C (nat (int m - (start + (i + 1)))) (out_oscPhase r, out_dsp r)"
              by (simp only: dsp_sample_shift st)
            then show ?thesis using e1 o True by simp
          next
            case F2: False
            then have "\<not> (start + i \<le> int m \<and> int m < start + n)"
              using False j_def by auto
            then show ?thesis using e1 o F2 by auto
          qed
        qed
      qed
      show ?thesis using len el by blast
    qed
    show ?thesis using ih(1) w(4) A B by simp
  qed
qed

lemma addToChannels_ok:
  "chs \<le> length out \<Longrightarrow> 0 \<le> j \<Longrightarrow> \<forall>k < length out. j < int (length (out ! k)) \<Longrightarrow>
   \<exists>out'. addToChannels out c chs j y = Inr out'"
proof (induction out c chs j y rule: addToChannels.induct)
  case (1 out c chs j y)
  show ?case
  proof (cases "c < chs")
    case False
    then show ?thesis by (subst addToChannels.simps) simp
  next
    case True
    define out1 where "out1 = out[c := (out ! c)[nat j := (out ! c) ! nat j + y]]"
    have a: "addToSample out c j y = Inr out1"
      using True "1.prems" by (simp add: addToSample_Inr out1_def)
    have l: "length out1 = length out" by (simp add: out1_def)
    have "length (out1 ! k) = length (out ! k)" if "k < length out" for k
      using that by (cases "k = c") (simp_all add: out1_def)
    with "1.prems" l have "\<forall>k < length out1. j < int (length (out1 ! k))" by simp
    with "1.IH" [OF True a] "1.prems" l
    obtain out' where "addToChannels out1 (c + 1) chs j y = Inr out'" by auto
    with a True show ?thesis by (subst addToChannels.simps) simp
  qed
qed

lemma render_loop_ok:
  "chs = length out \<Longrightarrow> out \<noteq> [] \<Longrightarrow> 0 \<le> start + i \<Longrightarrow>
   \<forall>k < length out. start + n \<le> int (length (out ! k)) \<Longrightarrow>
   \<exists>r. render_loop C chs start n i out osc s = Inr r"
proof (induction C chs start n i out osc s rule: render_loop.induct)
  case (1 C chs start n i out osc s)
  show ?case
  proof (cases "i < n")
    case False
    then show ?thesis by (simp add: render_loop_done)
  next
    case True
    define r where "r = render_sample C osc s"
    define j where "j = start + i"
    have jr: "0 \<le> j" "\<forall>k < length out. j < int (length (out ! k))"
      using "1.prems" True by (auto simp: j_def)
    define out1 where "out1 = out[0 := (out ! 0)[nat j := (out ! 0) ! nat j + out_y r]]"
    have a: "addToSample out 0 j (out_y r) = Inr out1"
      using "1.prems"(2) jr by (simp add: addToSample_Inr out1_def)
    have l: "length out1 = length out" by (simp add: out1_def)
    have "length (out1 ! k) = length (out ! k)" if "k < length out" for k
      using that by (cases "k = 0") (simp_all add: out1_def)
    with jr l have "\<forall>k < length out1. j < int (length (out1 ! k))" by simp
    from addToChannels_ok [OF _ jr(1) this, of chs 1 "out_y r"] "1.prems"(1) l
    obtain out2 where b: "addToChannels out1 1 chs j (out_y r) = Inr out2" by auto
    from write_step [OF a] b "1.prems"(1)
    have w: "length out2 = length out"
      "\<forall>k < length out. out2 ! k = (out ! k)[nat j := (out ! k) ! nat j + out_y r]"
      by simp_all
    have p1: "chs = length out2" using w(1) "1.prems"(1) by simp
    have p2: "out2 \<noteq> []" using w(1) "1.prems"(2) by auto
    have p3: "0 \<le> start + (i + 1)" using "1.prems"(3) by simp
    have p4: "\<forall>k < length out2. start + n \<le> int (length (out2 ! k))"
      using w "1.prems"(4) by simp
    from "1.IH" [OF True r_def a [unfolded j_def] b [unfolded j_def] p1 p2 p3 p4]
    obtain q where "render_loop C chs start n (i + 1) out2 (out_oscPhase r) (out_dsp r) = Inr q"
      by auto
    with a b True have "render_loop C chs start n i out osc s = Inr q"
      by (simp add: render_loop_step r_def j_def)
    then show ?thesis by blast
  qed
qed

lemma render_ok:
  "out \<noteq> [] \<Longrightarrow> 0 \<le> start \<Longrightarrow> \<forall>k < length out. start + n \<le> int (length (out ! k)) \<Longrightarrow>
   \<exists>out' osc' s'. render C out start n osc s = Inr (out', osc', s')"
  using render_loop_ok [of "length out" out start 0 n C osc s]
  by (auto simp: render_def)

lemma render_Inr:
  assumes "render C out start n osc s = Inr (out', osc', s')"
  shows "length out' = length out"
    and "(osc', s') = dsp_after C (nat n) (osc, s)"
    and "c < length out \<Longrightarrow> length (out' ! c) = length (out ! c)"
    and "c < length out \<Longrightarrow> m < length (out ! c) \<Longrightarrow> out' ! c ! m = out ! c ! m +
              (if start \<le> int m \<and> int m < start + n
               then dsp_sample C (nat (int m - start)) (osc, s) else 0)"
  using render_loop_Inr [of C "length out" start n 0 out osc s out' osc' s'] assms
  by (simp_all add: render_def)

section \<open>MIDI note to frequency\<close>

text \<open>
  Claim C10. For every call of \<open>startNote\<close> the target pitch becomes
  \<open>440 * 2 ^ ((midiNoteNumber - 69) / 12)\<close> Hz: note 69 maps to exactly 440 Hz and each
  semitone step multiplies the frequency by \<open>2 ^ (1 / 12)\<close>.
\<close>

theorem startNote_targetHz:
  "targetHz (startNote n vel v) = 440 * 2 powr (real_of_int (n - 69) / 12)
   \<and> targetHz (startNote 69 vel v) = 440
   \<and> targetHz (startNote (n + 1) vel v) = targetHz (startNote n vel v) * 2 powr (1 / 12)"
proof -
  have t: "targetHz (startNote m vel v) = midiToHz m" for m
    by (simp add: startNote_def Let_def)
  have e: "real_of_int (n + 1 - 69) / 12 = real_of_int (n - 69) / 12 + 1 / 12"
    by (simp add: field_simps)
  have "midiToHz (n + 1) = 440 * 2 powr (real_of_int (n - 69) / 12 + 1 / 12)"
    unfolding midiToHz_def e ..
  also have "\<dots> = midiToHz n * 2 powr (1 / 12)"
    unfolding midiToHz_def by (simp only: powr_add mult.assoc)
  finally have step: "midiToHz (n + 1) = midiToHz n * 2 powr (1 / 12)" .
  have a: "midiToHz 69 = 440"
    by (simp add: midiToHz_def)
  have d: "midiToHz n = 440 * 2 powr (real_of_int (n - 69) / 12)"
    by (simp only: midiToHz_def)
  show ?thesis
    unfolding t using step a d by simp
qed

section \<open>The hard clamp and non-finite values\<close>

text \<open>
  Claim C1 says that, for every sequence of calls, each sample the render loop adds to the
  output buffer lies in \<open>[-1, 1]\<close>, because the result of saturation times output
  gain is hard-clamped before it is written. On finite values the output stage does
  deliver the clamped product. It does not bound a NaN: \<open>std::clamp\<close> returns it
  unchanged. The output gain is the one argument that \<open>setParams\<close> does not clamp; at
  800 dB \<open>dbToLin\<close> overflows to \<open>+inf\<close>, and with a silent signal the product of the
  saturated sample 0 and that gain is NaN, which passes the clamp and is added to every
  channel. A NaN that arrives from earlier in the pass passes it in the same way.
\<close>

theorem output_stage_passes_nan:
  "fl_dbToLin 800 = PInf
   \<and> output_stage (Finite 0) PInf = NaN
   \<and> \<not> within_unit (output_stage (Finite 0) PInf)
   \<and> output_stage NaN g = NaN
   \<and> output_stage (Finite a) (Finite b) = Finite (clamp (a * b) (- 1) 1)"
proof -
  have p: "(10::real) powr (800 / 20) = 10 ^ 40"
    using powr_realpow [of "10::real" 40] by simp
  have "FLT_MAX < (10::real) ^ 40" by (simp add: FLT_MAX_def)
  then have a: "fl_dbToLin 800 = PInf" by (simp add: fl_dbToLin_def p)
  have b: "output_stage (Finite 0) PInf = NaN"
    by (simp add: output_stage_def fl_clamp_def)
  have c: "output_stage NaN g = NaN"
    by (simp add: output_stage_def fl_clamp_def)
  have d: "output_stage (Finite a) (Finite b) = Finite (clamp (a * b) (- 1) 1)"
    by (simp add: output_stage_def fl_clamp_def clamp_def)
  show ?thesis using a b c d by (simp add: within_unit_def)
qed

section \<open>A buffer without channels\<close>

text \<open>
  Claim C9 says that a render call on a buffer with zero channels completes without
  failure. It does not: the loop writes through the pointer of channel 0 on every pass, so
  with no channel and at least one sample to render the first pass writes through a
  pointer the buffer does not have.
\<close>

theorem render_zero_channels_fails:
  "render C [] startSample (1 + int k) oscPhase s = Inl ChannelOutOfRange"
proof -
  have "(0::int) < 1 + int k" by simp
  then show ?thesis
    by (simp add: render_def render_loop_step addToSample_def)
qed

section \<open>Facts about the envelope\<close>

lemma render_sample_frame:
  "sr (out_dsp (render_sample C osc s)) = sr s"
  "gate (out_dsp (render_sample C osc s)) = gate s"
  "velocity (out_dsp (render_sample C osc s)) = velocity s"
  "modWheel (out_dsp (render_sample C osc s)) = modWheel s"
  "motionSustainEnabled (out_dsp (render_sample C osc s)) = motionSustainEnabled s"
  "envA (out_dsp (render_sample C osc s)) = envA s"
  "envR (out_dsp (render_sample C osc s)) = envR s"
  unfolding render_sample_def Let_def by simp_all

lemma dsp_after_frame:
  "sr (snd (dsp_after C k st)) = sr (snd st)
   \<and> gate (snd (dsp_after C k st)) = gate (snd st)
   \<and> velocity (snd (dsp_after C k st)) = velocity (snd st)
   \<and> modWheel (snd (dsp_after C k st)) = modWheel (snd st)
   \<and> motionSustainEnabled (snd (dsp_after C k st)) = motionSustainEnabled (snd st)
   \<and> envA (snd (dsp_after C k st)) = envA (snd st)
   \<and> envR (snd (dsp_after C k st)) = envR (snd st)"
proof (induction k)
  case 0
  show ?case by simp
next
  case (Suc k)
  then show ?case
    by (simp add: dsp_after_Suc dsp_step_def Let_def render_sample_frame)
qed

lemma render_sample_env:
  "env (out_dsp (render_sample C osc s)) =
     out_pressureTarget (render_sample C osc s)
     + (if out_pressureTarget (render_sample C osc s) > env s then envA s else envR s)
       * (env s - out_pressureTarget (render_sample C osc s))"
  unfolding render_sample_def Let_def by simp

lemma render_sample_target_gate_off:
  "\<not> gate s \<Longrightarrow> out_pressureTarget (render_sample C osc s) = 0"
  unfolding render_sample_def Let_def by simp

lemma render_sample_target_no_motion:
  "gate s \<Longrightarrow> \<not> motionSustainEnabled s \<Longrightarrow>
   out_pressureTarget (render_sample C osc s)
     = clamp ((0.20 + 0.80 * velocity s) * 0.55 + modWheel s * 0.75) 0 1"
  unfolding render_sample_def Let_def by simp

lemma env_after_Suc:
  "env_after C (Suc k) st =
     target_at C k st
     + (if target_at C k st > env_after C k st then envA (snd st) else envR (snd st))
       * (env_after C k st - target_at C k st)"
  using dsp_after_frame [of C k st]
  by (simp add: env_after_def target_at_def dsp_after_Suc dsp_step_def Let_def render_sample_env)

lemma target_at_gate_off: "\<not> gate (snd st) \<Longrightarrow> target_at C k st = 0"
  using dsp_after_frame [of C k st]
  by (simp add: target_at_def render_sample_target_gate_off)

lemma target_at_no_motion:
  "gate (snd st) \<Longrightarrow> \<not> motionSustainEnabled (snd st) \<Longrightarrow>
   target_at C k st
     = clamp ((0.20 + 0.80 * velocity (snd st)) * 0.55 + modWheel (snd st) * 0.75) 0 1"
  using dsp_after_frame [of C k st]
  by (simp add: target_at_def render_sample_target_no_motion)

lemma coeff_bounds:
  assumes "0 < rate" "0 < ms"
  shows "0 < exp (- 1 / (max 0.0001 (ms / 1000) * rate))"
    and "exp (- 1 / (max 0.0001 (ms / 1000) * rate)) < (1::real)"
proof -
  have "0 < max 0.0001 (ms / 1000) * rate" using assms by (simp add: max_def)
  then have "- 1 / (max 0.0001 (ms / 1000) * rate) < 0" by (simp add: field_simps)
  then show "exp (- 1 / (max 0.0001 (ms / 1000) * rate)) < (1::real)" by simp
  show "0 < exp (- 1 / (max 0.0001 (ms / 1000) * rate))" by simp
qed

lemma setParams_coeffs:
  assumes "0 < sr s"
  shows "0 < envA (setParams C p s) \<and> envA (setParams C p s) < 1
       \<and> 0 < envR (setParams C p s) \<and> envR (setParams C p s) < 1"
  using coeff_bounds [OF assms, of "max 1 (p_attackMs p)"]
        coeff_bounds [OF assms, of "max 5 (p_releaseMs p)"]
  by (simp add: setParams_def coeffFromMs_def Let_def)

lemma attack_run:
  assumes a: "0 \<le> envA (snd st)" "envA (snd st) \<le> 1"
    and T: "\<forall>k < n. target_at C k st = T"
    and e0: "env_after C 0 st \<le> T"
  shows "k \<le> n \<Longrightarrow> env_after C k st \<le> T
     \<and> T - env_after C k st = envA (snd st) ^ k * (T - env_after C 0 st)"
proof (induction k)
  case 0
  show ?case using e0 by simp
next
  case (Suc k)
  then have ih: "env_after C k st \<le> T"
    "T - env_after C k st = envA (snd st) ^ k * (T - env_after C 0 st)" by simp_all
  have Tk: "target_at C k st = T" using T Suc.prems by simp
  have s: "env_after C (Suc k) st = T + envA (snd st) * (env_after C k st - T)"
  proof (cases "T > env_after C k st")
    case True
    then show ?thesis by (simp add: env_after_Suc Tk)
  next
    case False
    then have "env_after C k st = T" using ih(1) by simp
    then show ?thesis by (simp add: env_after_Suc Tk)
  qed
  have "T - env_after C (Suc k) st = envA (snd st) * (T - env_after C k st)"
    by (simp add: s algebra_simps)
  then have c: "T - env_after C (Suc k) st = envA (snd st) ^ Suc k * (T - env_after C 0 st)"
    by (simp add: ih(2))
  have "0 \<le> envA (snd st) * (T - env_after C k st)"
    using a(1) ih(1) by simp
  then have "env_after C (Suc k) st \<le> T" by (simp add: s algebra_simps)
  with c show ?case by simp
qed

lemma attack_mono:
  assumes a: "0 \<le> envA (snd st)" "envA (snd st) \<le> 1"
    and T: "\<forall>k < n. target_at C k st = T"
    and e0: "env_after C 0 st \<le> T"
    and k: "k < n"
  shows "env_after C k st \<le> env_after C (Suc k) st"
proof -
  have b: "env_after C k st \<le> T" using attack_run [OF a T e0, of k] k by simp
  have Tk: "target_at C k st = T" using T k by simp
  have s: "env_after C (Suc k) st = T + envA (snd st) * (env_after C k st - T)"
  proof (cases "T > env_after C k st")
    case True
    then show ?thesis by (simp add: env_after_Suc Tk)
  next
    case False
    then have "env_after C k st = T" using b by simp
    then show ?thesis by (simp add: env_after_Suc Tk)
  qed
  have "envA (snd st) * (T - env_after C k st) \<le> 1 * (T - env_after C k st)"
    using a(2) b by (intro mult_right_mono) simp_all
  then show ?thesis by (simp add: s algebra_simps)
qed

lemma release_run:
  assumes r: "0 \<le> envR (snd st)"
    and g: "\<not> gate (snd st)"
    and e0: "0 \<le> env_after C 0 st"
  shows "0 \<le> env_after C k st \<and> env_after C k st = envR (snd st) ^ k * env_after C 0 st"
proof (induction k)
  case 0
  show ?case using e0 by simp
next
  case (Suc k)
  have "env_after C (Suc k) st = envR (snd st) * env_after C k st"
    using Suc by (simp add: env_after_Suc target_at_gate_off [OF g])
  then show ?case using Suc r by simp
qed

lemma release_mono:
  assumes r: "0 \<le> envR (snd st)" "envR (snd st) \<le> 1"
    and g: "\<not> gate (snd st)"
    and e0: "0 \<le> env_after C 0 st"
  shows "env_after C (Suc k) st \<le> env_after C k st"
proof -
  have p: "0 \<le> env_after C k st" using release_run [OF r(1) g e0, of k] by simp
  have "env_after C (Suc k) st = envR (snd st) * env_after C k st"
    using p by (simp add: env_after_Suc target_at_gate_off [OF g])
  moreover have "envR (snd st) * env_after C k st \<le> 1 * env_after C k st"
    using r(2) p by (intro mult_right_mono) simp_all
  ultimately show ?thesis by simp
qed

lemma attack_limit:
  assumes a: "0 \<le> envA (snd st)" "envA (snd st) < 1"
    and T: "\<forall>k. target_at C k st = T"
    and e0: "env_after C 0 st \<le> T"
  shows "(\<lambda>k. env_after C k st) \<longlonglongrightarrow> T"
proof -
  have c: "env_after C k st = T - envA (snd st) ^ k * (T - env_after C 0 st)" for k
    using attack_run [of st k C T k] a T e0 by simp
  have pw: "(\<lambda>k. envA (snd st) ^ k) \<longlonglongrightarrow> 0"
    using a by (rule LIMSEQ_realpow_zero)
  have "(\<lambda>k. T - envA (snd st) ^ k * (T - env_after C 0 st)) \<longlonglongrightarrow> T - 0 * (T - env_after C 0 st)"
    by (rule tendsto_diff [OF tendsto_const tendsto_mult [OF pw tendsto_const]])
  then show ?thesis by (simp add: c [symmetric])
qed

lemma release_limit:
  assumes r: "0 \<le> envR (snd st)" "envR (snd st) < 1"
    and g: "\<not> gate (snd st)"
    and e0: "0 \<le> env_after C 0 st"
  shows "(\<lambda>k. env_after C k st) \<longlonglongrightarrow> 0"
proof -
  have c: "env_after C k st = envR (snd st) ^ k * env_after C 0 st" for k
    using release_run [OF r(1) g e0, of k] by simp
  have pw: "(\<lambda>k. envR (snd st) ^ k) \<longlonglongrightarrow> 0"
    using r by (rule LIMSEQ_realpow_zero)
  have "(\<lambda>k. envR (snd st) ^ k * env_after C 0 st) \<longlonglongrightarrow> 0 * env_after C 0 st"
    by (rule tendsto_mult [OF pw tendsto_const])
  then show ?thesis by (simp add: c [symmetric])
qed

section \<open>The breath envelope\<close>

text \<open>
  Claim C2. Every pass updates the envelope by the asymmetric one-pole rule
  \<open>coeff = (target > current ? attackCoeff : releaseCoeff)\<close>,
  \<open>current = target + coeff * (current - target)\<close>. The coefficients that \<open>setParams\<close>
  computes at a positive sample rate lie strictly between 0 and 1. With such coefficients,
  while the pressure target stays at a constant \<open>T\<close> (as it does with the gate held and no
  motion input) an envelope that starts at or below \<open>T\<close> rises monotonically, never exceeds
  \<open>T\<close> and converges to \<open>T\<close>; with the gate off the target is 0 and a non-negative envelope
  falls monotonically and converges to 0.
\<close>

theorem breath_envelope:
  "env_after C (Suc k) st =
     target_at C k st
     + (if target_at C k st > env_after C k st then envA (snd st) else envR (snd st))
       * (env_after C k st - target_at C k st)
   \<and> (0 < sr s \<longrightarrow>
        0 < envA (setParams C p s) \<and> envA (setParams C p s) < 1
        \<and> 0 < envR (setParams C p s) \<and> envR (setParams C p s) < 1)
   \<and> (0 \<le> envA (snd st) \<and> envA (snd st) \<le> 1 \<and> (\<forall>j < n. target_at C j st = T)
        \<and> env_after C 0 st \<le> T \<and> k < n \<longrightarrow>
        env_after C k st \<le> env_after C (Suc k) st \<and> env_after C (Suc k) st \<le> T)
   \<and> (0 \<le> envA (snd st) \<and> envA (snd st) < 1 \<and> (\<forall>j. target_at C j st = T)
        \<and> env_after C 0 st \<le> T \<longrightarrow>
        (\<lambda>i. env_after C i st) \<longlonglongrightarrow> T)
   \<and> (\<not> gate (snd st) \<and> 0 \<le> envR (snd st) \<and> envR (snd st) \<le> 1 \<and> 0 \<le> env_after C 0 st \<longrightarrow>
        target_at C k st = 0
        \<and> 0 \<le> env_after C (Suc k) st \<and> env_after C (Suc k) st \<le> env_after C k st)
   \<and> (\<not> gate (snd st) \<and> 0 \<le> envR (snd st) \<and> envR (snd st) < 1 \<and> 0 \<le> env_after C 0 st \<longrightarrow>
        (\<lambda>i. env_after C i st) \<longlonglongrightarrow> 0)"
proof (intro conjI impI)
  show "env_after C (Suc k) st =
     target_at C k st
     + (if target_at C k st > env_after C k st then envA (snd st) else envR (snd st))
       * (env_after C k st - target_at C k st)"
    by (rule env_after_Suc)
next
  assume "0 < sr s"
  from setParams_coeffs [OF this, of C p]
  show "0 < envA (setParams C p s)" "envA (setParams C p s) < 1"
    "0 < envR (setParams C p s)" "envR (setParams C p s) < 1"
    by simp_all
next
  assume h: "0 \<le> envA (snd st) \<and> envA (snd st) \<le> 1 \<and> (\<forall>j < n. target_at C j st = T)
        \<and> env_after C 0 st \<le> T \<and> k < n"
  then show "env_after C k st \<le> env_after C (Suc k) st"
    using attack_mono [of st n C T k] by simp
  from h show "env_after C (Suc k) st \<le> T"
    using attack_run [of st n C T "Suc k"] by simp
next
  assume "0 \<le> envA (snd st) \<and> envA (snd st) < 1 \<and> (\<forall>j. target_at C j st = T)
        \<and> env_after C 0 st \<le> T"
  then show "(\<lambda>i. env_after C i st) \<longlonglongrightarrow> T"
    using attack_limit [of st C T] by simp
next
  assume h: "\<not> gate (snd st) \<and> 0 \<le> envR (snd st) \<and> envR (snd st) \<le> 1 \<and> 0 \<le> env_after C 0 st"
  then show "target_at C k st = 0" by (simp add: target_at_gate_off)
  from h show "0 \<le> env_after C (Suc k) st"
    using release_run [of st C "Suc k"] by simp
  from h show "env_after C (Suc k) st \<le> env_after C k st"
    using release_mono [of st C k] by simp
next
  assume "\<not> gate (snd st) \<and> 0 \<le> envR (snd st) \<and> envR (snd st) < 1 \<and> 0 \<le> env_after C 0 st"
  then show "(\<lambda>i. env_after C i st) \<longlonglongrightarrow> 0"
    using release_limit [of st C] by simp
qed

theorem breath_envelope_witness:
  "(let C = plain_components;
        s = setVelocity 1 (setGate True (setParams C default_params (prepare C 48000 512 2 zero_dsp)));
        st = (0, s);
        st' = (0, setGate False (snd (dsp_after C 1 st)))
    in 0 < envA s \<and> envA s < 1
       \<and> env_after C 0 st \<le> env_after C 1 st \<and> env_after C 1 st \<le> env_after C 2 st
       \<and> env_after C 2 st \<le> 11 / 20
       \<and> (\<lambda>i. env_after C i st) \<longlonglongrightarrow> 11 / 20
       \<and> 0 \<le> env_after C 1 st' \<and> env_after C 1 st' \<le> env_after C 0 st'
       \<and> (\<lambda>i. env_after C i st') \<longlonglongrightarrow> 0)"
proof -
  define C where "C = plain_components"
  define s0 where "s0 = prepare C 48000 512 2 zero_dsp"
  define s where "s = setVelocity 1 (setGate True (setParams C default_params s0))"
  define st where "st = (0::real, s)"
  define st' where "st' = (0::real, setGate False (snd (dsp_after C 1 st)))"
  have sr0: "0 < sr s0"
    by (simp add: s0_def prepare_def reset_def Let_def)
  have co: "envA s = envA (setParams C default_params s0)" "envR s = envR (setParams C default_params s0)"
    by (simp_all add: s_def setVelocity_def setGate_def)
  have cb: "0 < envA s \<and> envA s < 1 \<and> 0 < envR s \<and> envR s < 1"
    using breath_envelope [of C 0 st s0 default_params 0 0] sr0 co by simp
  have f: "gate s" "\<not> motionSustainEnabled s" "velocity s = 1" "modWheel s = 0" "env s = 0"
    by (simp_all add: s_def s0_def setVelocity_def setGate_def setParams_def prepare_def reset_def
        Let_def default_params_def zero_dsp_def clamp_def)
  have T: "target_at C j st = 11 / 20" for j
    using target_at_no_motion [of st C j] f by (simp add: st_def clamp_def)
  have e0: "env_after C 0 st = 0"
    by (simp add: env_after_def st_def f)
  have sst: "snd st = s" by (simp add: st_def)
  have cb': "0 \<le> envA s" "envA s \<le> 1" "0 \<le> envR s" "envR s \<le> 1" using cb by simp_all
  have H0: "0 \<le> envA (snd st) \<and> envA (snd st) \<le> 1 \<and> (\<forall>j < 2. target_at C j st = 11 / 20)
        \<and> env_after C 0 st \<le> 11 / 20 \<and> (0::nat) < 2"
    by (simp add: sst cb' T e0)
  have H1: "0 \<le> envA (snd st) \<and> envA (snd st) \<le> 1 \<and> (\<forall>j < 2. target_at C j st = 11 / 20)
        \<and> env_after C 0 st \<le> 11 / 20 \<and> (1::nat) < 2"
    by (simp add: sst cb' T e0)
  have HL: "0 \<le> envA (snd st) \<and> envA (snd st) < 1 \<and> (\<forall>j. target_at C j st = 11 / 20)
        \<and> env_after C 0 st \<le> 11 / 20"
    using cb by (simp add: sst cb' T e0)
  have a01: "env_after C 0 st \<le> env_after C (Suc 0) st \<and> env_after C (Suc 0) st \<le> 11 / 20"
    using breath_envelope [of C 0 st s0 default_params 2 "11 / 20", THEN conjunct2, THEN conjunct2,
        THEN conjunct1, rule_format, OF H0] .
  have a12: "env_after C 1 st \<le> env_after C (Suc 1) st \<and> env_after C (Suc 1) st \<le> 11 / 20"
    using breath_envelope [of C 1 st s0 default_params 2 "11 / 20", THEN conjunct2, THEN conjunct2,
        THEN conjunct1, rule_format, OF H1] .
  have al: "(\<lambda>i. env_after C i st) \<longlonglongrightarrow> 11 / 20"
    using breath_envelope [of C 0 st s0 default_params 2 "11 / 20", THEN conjunct2, THEN conjunct2,
        THEN conjunct2, THEN conjunct1, rule_format, OF HL] .
  have g': "\<not> gate (snd st')" by (simp add: st'_def setGate_def)
  have r': "envR (snd st') = envR s"
    using dsp_after_frame [of C 1 st] by (simp add: st'_def setGate_def st_def)
  have e0': "env_after C 0 st' = env_after C (Suc 0) st"
    by (simp add: env_after_def st'_def setGate_def)
  have p1: "0 \<le> env_after C (Suc 0) st" using a01 e0 by simp
  have R0: "\<not> gate (snd st') \<and> 0 \<le> envR (snd st') \<and> envR (snd st') \<le> 1 \<and> 0 \<le> env_after C 0 st'"
    by (simp add: g' r' cb' e0' p1)
  have RL: "\<not> gate (snd st') \<and> 0 \<le> envR (snd st') \<and> envR (snd st') < 1 \<and> 0 \<le> env_after C 0 st'"
    using cb by (simp add: g' r' cb' e0' p1)
  have rel: "target_at C 0 st' = 0 \<and> 0 \<le> env_after C (Suc 0) st'
      \<and> env_after C (Suc 0) st' \<le> env_after C 0 st'"
    using breath_envelope [of C 0 st' s0 default_params 2 "11 / 20", THEN conjunct2, THEN conjunct2,
        THEN conjunct2, THEN conjunct2, THEN conjunct1, rule_format, OF R0] .
  have rl: "(\<lambda>i. env_after C i st') \<longlonglongrightarrow> 0"
    using breath_envelope [of C 0 st' s0 default_params 2 "11 / 20", THEN conjunct2, THEN conjunct2,
        THEN conjunct2, THEN conjunct2, THEN conjunct2, rule_format, OF RL] .
  have two: "Suc 1 = 2" by simp
  have "0 < envA s \<and> envA s < 1
       \<and> env_after C 0 st \<le> env_after C 1 st \<and> env_after C 1 st \<le> env_after C 2 st
       \<and> env_after C 2 st \<le> 11 / 20
       \<and> (\<lambda>i. env_after C i st) \<longlonglongrightarrow> 11 / 20
       \<and> 0 \<le> env_after C 1 st' \<and> env_after C 1 st' \<le> env_after C 0 st'
       \<and> (\<lambda>i. env_after C i st') \<longlonglongrightarrow> 0"
    using cb a01 a12 [unfolded two] al rel rl by simp
  then show ?thesis
    unfolding Let_def C_def s0_def s_def st_def st'_def .
qed

section \<open>Motion energy\<close>

lemma render_sample_motionE:
  "out_motionE (render_sample C oscPhase s) =
     (if motionSustainEnabled s then min 1 (motion_sum C oscPhase s) else 0)"
  unfolding motion_sum_def unfolding render_sample_def Let_def by simp

lemma render_sample_target_gate_on:
  "gate s \<Longrightarrow> out_pressureTarget (render_sample C oscPhase s) =
     clamp ((0.20 + 0.80 * velocity s) * 0.55 + modWheel s * 0.75
            + out_motionE (render_sample C oscPhase s) * 0.60) 0 1"
  unfolding render_sample_def Let_def by simp

text \<open>
  Claim C6. With motion sustain enabled the motion energy of a pass is the sum of the four
  estimator outputs, the pitch-derived one weighted by 0.5, clamped to \<open>[0, 1]\<close>; with
  motion sustain disabled it is 0. The loop bounds the sum from above by
  \<open>min 1\<close>; the lower bound 0 comes from the estimators, whose outputs are non-negative by
  their contract.
\<close>

theorem motion_energy:
  "out_motionE (render_sample C oscPhase s) =
     (if motionSustainEnabled s then min 1 (motion_sum C oscPhase s) else 0)
   \<and> ((\<forall>v sens m. 0 \<le> fst (me_process C v sens m)) \<longrightarrow>
        out_motionE (render_sample C oscPhase s) =
          (if motionSustainEnabled s then clamp (motion_sum C oscPhase s) 0 1 else 0)
        \<and> 0 \<le> out_motionE (render_sample C oscPhase s)
        \<and> out_motionE (render_sample C oscPhase s) \<le> 1)"
proof (intro conjI impI)
  show a: "out_motionE (render_sample C oscPhase s) =
     (if motionSustainEnabled s then min 1 (motion_sum C oscPhase s) else 0)"
    by (rule render_sample_motionE)
  assume nn: "\<forall>v sens m. 0 \<le> fst (me_process C v sens m)"
  have "0 \<le> motion_sum C oscPhase s"
    unfolding motion_sum_def Let_def
    by (intro add_nonneg_nonneg mult_nonneg_nonneg nn [rule_format]) simp
  then have c: "clamp (motion_sum C oscPhase s) 0 1 = min 1 (motion_sum C oscPhase s)"
    "0 \<le> min 1 (motion_sum C oscPhase s)"
    by (simp_all add: clamp_def min_def)
  show "out_motionE (render_sample C oscPhase s) =
          (if motionSustainEnabled s then clamp (motion_sum C oscPhase s) 0 1 else 0)"
    by (simp add: a c)
  show "0 \<le> out_motionE (render_sample C oscPhase s)"
    using c(2) by (simp add: a)
  show "out_motionE (render_sample C oscPhase s) \<le> 1"
    by (simp add: a)
qed

theorem motion_energy_witness:
  "(let C = plain_components\<lparr>me_process := (\<lambda>v sens m. (1 / 2, m))\<rparr>
    in out_motionE (render_sample C 0 (zero_dsp\<lparr>motionSustainEnabled := True\<rparr>)) = 1
       \<and> motion_sum C 0 (zero_dsp\<lparr>motionSustainEnabled := True\<rparr>) = 7 / 4
       \<and> out_motionE (render_sample C 0 zero_dsp) = 0)"
proof -
  define C where "C = plain_components\<lparr>me_process := (\<lambda>v sens m. (1 / 2 :: real, m))\<rparr>"
  have nn: "\<forall>v sens m. 0 \<le> fst (me_process C v sens m)"
    by (simp add: C_def)
  have ms: "motion_sum C 0 s = 7 / 4" for s
    by (simp add: motion_sum_def C_def Let_def)
  have en: "motionSustainEnabled (zero_dsp\<lparr>motionSustainEnabled := True\<rparr>)"
    "\<not> motionSustainEnabled zero_dsp"
    by (simp_all add: zero_dsp_def)
  have "out_motionE (render_sample C 0 (zero_dsp\<lparr>motionSustainEnabled := True\<rparr>)) = 1"
    using motion_energy [of C 0 "zero_dsp\<lparr>motionSustainEnabled := True\<rparr>"] nn en(1)
    by (simp add: ms clamp_def)
  moreover have "out_motionE (render_sample C 0 zero_dsp) = 0"
    using motion_energy [of C 0 zero_dsp] nn en(2) by simp
  ultimately show ?thesis
    unfolding Let_def C_def [symmetric] using ms by simp
qed

section \<open>Tone shaping\<close>

lemma render_sample_tone:
  "coefficients (hp (out_dsp (render_sample C osc s)))
     = makeHighPass C (sr s) (40 + (1 - fst (sm_getNextValue C (toneS s))) * 120)"
  "coefficients (lp (out_dsp (render_sample C osc s)))
     = makeLowPass C (sr s) (4500 + fst (sm_getNextValue C (toneS s)) * 11500)"
  unfolding render_sample_def Let_def by simp_all

text \<open>
  Claim C7. On every pass the tone corners are recomputed from the smoothed tone control
  of that pass, highpass corner \<open>40 + (1 - tone) * 120\<close> Hz and lowpass corner
  \<open>4500 + tone * 11500\<close> Hz, and the coefficients of the highpass and the lowpass filter
  are replaced by those made from these corners at the sample rate.
\<close>

theorem tone_corners_every_sample:
  "coefficients (hp (snd (dsp_after C (Suc k) st)))
     = makeHighPass C (sr (snd st)) (40 + (1 - tone_at C k st) * 120)
   \<and> coefficients (lp (snd (dsp_after C (Suc k) st)))
     = makeLowPass C (sr (snd st)) (4500 + tone_at C k st * 11500)"
  using dsp_after_frame [of C k st]
  by (simp add: dsp_after_Suc dsp_step_def Let_def render_sample_tone tone_at_def)

section \<open>Facts about the voice\<close>






section \<open>Pitch glide\<close>



section \<open>Facts about the static oscillator phase\<close>

lemma addToChannels_done:
  "\<not> c < chs \<Longrightarrow> addToChannels out c chs j y = Inr out"
  by (subst addToChannels.simps) simp

lemma render_one_sample:
  "render C [[b]] 0 1 osc s =
     Inr ([[b + out_y (render_sample C osc s)]],
          out_oscPhase (render_sample C osc s), out_dsp (render_sample C osc s))"
proof -
  have "(0::int) < 1" by simp
  then show ?thesis
    by (simp add: render_def render_loop_step render_loop_done addToSample_def
        addToChannels_done)
qed

lemma one_note_setup_fields:
  "sr (one_note_setup C s) = 48000"
  "phase (one_note_setup C s) = 0"
  "env (one_note_setup C s) = 0"
  "gate (one_note_setup C s)"
  "pitchHz (one_note_setup C s) = 12000"
  "pitchBend (one_note_setup C s) = 0"
  "velocity (one_note_setup C s) = 1"
  "modWheel (one_note_setup C s) = 0"
  "\<not> motionSustainEnabled (one_note_setup C s)"
  "envA (one_note_setup C s) = exp (- 1 / 48)"
  by (simp_all add: one_note_setup_def setGate_def setVelocity_def setModWheel_def
      setPitchBendNorm_def setPitchHz_def setParams_def prepare_def reset_def Let_def
      default_params_def clamp_def midiToHzClamp_def coeffFromMs_def)

lemma render_sample_hz_at_rest:
  "phase s = 0 \<Longrightarrow> pitchBend s = 0 \<Longrightarrow> out_hz (render_sample C osc s) = midiToHzClamp (pitchHz s)"
  unfolding render_sample_def Let_def by simp

lemma render_sample_oscPhase:
  "out_oscPhase (render_sample C osc s) =
     (if osc + out_hz (render_sample C osc s) / sr s \<ge> 1
      then osc + out_hz (render_sample C osc s) / sr s - 1
      else osc + out_hz (render_sample C osc s) / sr s)"
  unfolding render_sample_def Let_def by simp

lemma reset_fields:
  "env (reset C s) = 0" "phase (reset C s) = 0" "\<not> gate (reset C s)"
  "pitchBP (reset C s) = svf_reset C (pitchBP s)"
  "form1BP (reset C s) = svf_reset C (form1BP s)"
  "form2BP (reset C s) = svf_reset C (form2BP s)"
  "registers (hp (reset C s)) = iir_reset C (registers (hp s))"
  "registers (lp (reset C s)) = iir_reset C (registers (lp s))"
  "meMW (reset C s) = me_reset C (meMW s)"
  "meAT (reset C s) = me_reset C (meAT s)"
  "mePB (reset C s) = me_reset C (mePB s)"
  "mePitch (reset C s) = me_reset C (mePitch s)"
  "sr (reset C s) = sr s" "pitchHz (reset C s) = pitchHz s" "pitchBend (reset C s) = pitchBend s"
  by (simp_all add: reset_def)

lemma render_sample_frame2:
  "pitchHz (out_dsp (render_sample C osc s)) = pitchHz s"
  "pitchBend (out_dsp (render_sample C osc s)) = pitchBend s"
  unfolding render_sample_def Let_def by simp_all

section \<open>Reset and the oscillator phase\<close>

text \<open>
  Claim C5 says that \<open>reset\<close> zeroes all running state, every oscillator phase included.
  \<open>reset\<close> does zero the envelope and the vibrato phase, closes the gate and resets the
  five filters and the four estimators. The phase of the sine anchor is a static local of
  \<open>render\<close>, which \<open>reset\<close> cannot reach: after one sample of a 12 kHz note at 48 kHz it is
  \<open>1 / 4\<close>, it is still \<open>1 / 4\<close> after \<open>reset\<close>, and the next pass continues from there
  to \<open>1 / 2\<close>.
\<close>

theorem reset_keeps_oscillator_phase:
  "env (snd (on_object (reset C) st)) = 0
   \<and> phase (snd (on_object (reset C) st)) = 0
   \<and> \<not> gate (snd (on_object (reset C) st))
   \<and> pitchBP (snd (on_object (reset C) st)) = svf_reset C (pitchBP (snd st))
   \<and> form1BP (snd (on_object (reset C) st)) = svf_reset C (form1BP (snd st))
   \<and> form2BP (snd (on_object (reset C) st)) = svf_reset C (form2BP (snd st))
   \<and> registers (hp (snd (on_object (reset C) st))) = iir_reset C (registers (hp (snd st)))
   \<and> registers (lp (snd (on_object (reset C) st))) = iir_reset C (registers (lp (snd st)))
   \<and> meMW (snd (on_object (reset C) st)) = me_reset C (meMW (snd st))
   \<and> meAT (snd (on_object (reset C) st)) = me_reset C (meAT (snd st))
   \<and> mePB (snd (on_object (reset C) st)) = me_reset C (mePB (snd st))
   \<and> mePitch (snd (on_object (reset C) st)) = me_reset C (mePitch (snd st))
   \<and> fst (dsp_after C 1 (on_object (one_note_setup C) (0, s0))) = 1 / 4
   \<and> fst (on_object (reset C) (dsp_after C 1 (on_object (one_note_setup C) (0, s0)))) = 1 / 4
   \<and> fst (dsp_after C 1 (on_object (reset C)
             (dsp_after C 1 (on_object (one_note_setup C) (0, s0))))) = 1 / 2"
proof -
  define s1 where "s1 = one_note_setup C s0"
  define r1 where "r1 = render_sample C 0 s1"
  define s2 where "s2 = reset C (out_dsp r1)"
  have f1: "phase s1 = 0" "pitchBend s1 = 0" "pitchHz s1 = 12000" "sr s1 = 48000"
    by (simp_all add: s1_def one_note_setup_fields)
  have hz1: "out_hz (render_sample C 0 s1) = 12000"
    by (simp add: render_sample_hz_at_rest f1 midiToHzClamp_def clamp_def)
  have o1: "out_oscPhase r1 = 1 / 4"
    unfolding r1_def render_sample_oscPhase by (simp add: hz1 f1)
  have f2: "phase s2 = 0" "pitchBend s2 = 0" "pitchHz s2 = 12000" "sr s2 = 48000"
    by (simp_all add: s2_def reset_fields r1_def render_sample_frame2 render_sample_frame f1)
  have hz2: "out_hz (render_sample C (1 / 4) s2) = 12000"
    by (simp add: render_sample_hz_at_rest f2 midiToHzClamp_def clamp_def)
  have o2: "out_oscPhase (render_sample C (1 / 4) s2) = 1 / 2"
    unfolding render_sample_oscPhase by (simp add: hz2 f2)
  have a: "dsp_after C 1 (on_object (one_note_setup C) (0, s0)) = (1 / 4, out_dsp r1)"
    by (simp add: dsp_after_def dsp_step_def on_object_def Let_def s1_def [symmetric]
        r1_def [symmetric] o1)
  have b: "on_object (reset C) (1 / 4, out_dsp r1) = (1 / 4, s2)"
    by (simp add: on_object_def s2_def)
  have c: "fst (dsp_after C 1 (1 / 4, s2)) = 1 / 2"
    by (simp add: dsp_after_def dsp_step_def Let_def o2)
  show ?thesis
    unfolding a b c by (simp add: on_object_def reset_fields)
qed

section \<open>Facts about the plain collaborators\<close>

lemma plain_simps:
  "sm_getNextValue plain_components v = (v, v)"
  "svf_processSample plain_components ch x f = (x, f)"
  "iir_processSample plain_components co x g = (x, g)"
  "nextWhite plain_components n = (0, n)"
  "nextPink plain_components n = (0, n)"
  "SoftLimiter_process plain_components z = z / (1 + \<bar>z\<bar>)"
  by (simp_all add: plain_components_def)

lemma plain_render_sample_y:
  "out_y (render_sample plain_components osc s) =
     (let r = render_sample plain_components osc s;
          x = sin (out_oscPhase r * 2 * pi) * (0.15 * sineAnchorS s) * (airS s * env (out_dsp r));
          z = (0.70 * x + 0.40 * x + 0.30 * x) * (1.2 + 0.9 * clamp (resistS s) 0 1)
      in clamp (z / (1 + \<bar>z\<bar>) * outGainS s) (- 1) 1)"
  unfolding render_sample_def Let_def by (simp add: plain_simps split del: if_split)

lemma plain_setup_fields:
  "airS (one_note_setup plain_components s) = 1"
  "sineAnchorS (one_note_setup plain_components s) = 1"
  "resistS (one_note_setup plain_components s) = 0"
  "outGainS (one_note_setup plain_components s) = 1"
  by (simp_all add: one_note_setup_def setGate_def setVelocity_def setModWheel_def
      setPitchBendNorm_def setPitchHz_def setParams_def prepare_def reset_def Let_def
      default_params_def clamp_def plain_components_def dbToLin_def)

lemma one_note_first_env:
  "env (out_dsp (render_sample C osc (one_note_setup C s))) = 11 / 20 * (1 - exp (- 1 / 48))"
proof -
  have T: "out_pressureTarget (render_sample C osc (one_note_setup C s)) = 11 / 20"
    by (simp add: render_sample_target_no_motion one_note_setup_fields clamp_def)
  show ?thesis
    unfolding render_sample_env T by (simp add: one_note_setup_fields algebra_simps)
qed

lemma one_note_oscPhase:
  "0 \<le> osc \<Longrightarrow> osc < 3 / 4 \<Longrightarrow>
   out_oscPhase (render_sample C osc (one_note_setup C s)) = osc + 1 / 4"
proof -
  have hz: "out_hz (render_sample C osc (one_note_setup C s)) = 12000"
    by (simp add: render_sample_hz_at_rest one_note_setup_fields midiToHzClamp_def clamp_def)
  assume "0 \<le> osc" "osc < 3 / 4"
  then show ?thesis
    unfolding render_sample_oscPhase by (simp add: hz one_note_setup_fields)
qed

lemma plain_render_sample_y_pos:
  assumes "0 < sin (out_oscPhase (render_sample plain_components osc s) * 2 * pi)"
    and "0 < sineAnchorS s" and "0 < airS s" and "0 < outGainS s"
    and "0 < env (out_dsp (render_sample plain_components osc s))"
  shows "0 < out_y (render_sample plain_components osc s)"
proof -
  define r where "r = render_sample plain_components osc s"
  define x where "x = sin (out_oscPhase r * 2 * pi) * (0.15 * sineAnchorS s) * (airS s * env (out_dsp r))"
  define z where "z = (0.70 * x + 0.40 * x + 0.30 * x) * (1.2 + 0.9 * clamp (resistS s) 0 1)"
  have y: "out_y r = clamp (z / (1 + \<bar>z\<bar>) * outGainS s) (- 1) 1"
    unfolding r_def z_def x_def
    by (subst plain_render_sample_y) (simp only: Let_def)
  have xp: "0 < x"
    using assms unfolding x_def r_def by (intro mult_pos_pos) simp_all
  have "0 \<le> clamp (resistS s) 0 1" using clamp_bounds [of 0 1 "resistS s"] by simp
  then have "0 < 1.2 + 0.9 * clamp (resistS s) 0 1"
    by (intro add_pos_nonneg mult_nonneg_nonneg) simp_all
  moreover have "0 < 0.70 * x + 0.40 * x + 0.30 * x" using xp by simp
  ultimately have zp: "0 < z" unfolding z_def by (rule mult_pos_pos [rotated])
  then have "0 < z / (1 + \<bar>z\<bar>)" by (intro divide_pos_pos) simp_all
  then have "0 < z / (1 + \<bar>z\<bar>) * outGainS s" using assms(4) by (rule mult_pos_pos)
  then have "0 < clamp (z / (1 + \<bar>z\<bar>) * outGainS s) (- 1) 1" by (simp add: clamp_def)
  then show ?thesis using y by (simp add: r_def)
qed

lemma plain_render_sample_y_zero:
  assumes "sin (out_oscPhase (render_sample plain_components osc s) * 2 * pi) = 0"
  shows "out_y (render_sample plain_components osc s) = 0"
  unfolding plain_render_sample_y [of osc s] Let_def assms by (simp add: clamp_def)

lemma one_note_first_sample_pos:
  "0 < out_y (render_sample plain_components 0 (one_note_setup plain_components s0))"
proof -
  have o: "out_oscPhase (render_sample plain_components 0 (one_note_setup plain_components s0)) = 1 / 4"
    using one_note_oscPhase [of 0 plain_components s0] by simp
  have q: "sin (1 / 4 * 2 * pi) = 1"
  proof -
    have "1 / 4 * 2 * pi = pi / 2" by simp
    then show ?thesis by (simp only: sin_pi_half)
  qed
  have epos: "0 < 11 / 20 * (1 - exp (- 1 / 48 :: real))" by simp
  show ?thesis
    by (rule plain_render_sample_y_pos)
       (simp_all only: o q one_note_first_env plain_setup_fields epos zero_less_one)
qed

section \<open>Frame of the render call\<close>

text \<open>
  Claim C8. A render call on a buffer that has a channel and holds the region
  \<open>[startSample, startSample + numSamples)\<close> completes, and a render call that completes
  adds to the buffer and never overwrites it: every channel keeps its length, the sample
  at index \<open>m\<close> of every channel grows by the same mono value, the one the pass for that
  index produced, when \<open>m\<close> lies in the region, and is unchanged otherwise.
\<close>

theorem render_adds_mono_region:
  "(out \<noteq> [] \<and> 0 \<le> startSample
      \<and> (\<forall>k < length out. startSample + numSamples \<le> int (length (out ! k))) \<longrightarrow>
      (\<exists>r. render C out startSample numSamples oscPhase s = Inr r))
   \<and> (render C out startSample numSamples oscPhase s = Inr (out', oscPhase', s') \<longrightarrow>
      length out' = length out
      \<and> (\<forall>c < length out. length (out' ! c) = length (out ! c)
          \<and> (\<forall>m < length (out ! c). out' ! c ! m = out ! c ! m +
               (if startSample \<le> int m \<and> int m < startSample + numSamples
                then dsp_sample C (nat (int m - startSample)) (oscPhase, s) else 0))))"
proof (intro conjI impI)
  assume "out \<noteq> [] \<and> 0 \<le> startSample
      \<and> (\<forall>k < length out. startSample + numSamples \<le> int (length (out ! k)))"
  then show "\<exists>r. render C out startSample numSamples oscPhase s = Inr r"
    using render_ok [of out startSample numSamples C oscPhase s] by auto
next
  assume r: "render C out startSample numSamples oscPhase s = Inr (out', oscPhase', s')"
  show "length out' = length out" by (rule render_Inr(1) [OF r])
  show "\<forall>c < length out. length (out' ! c) = length (out ! c)
          \<and> (\<forall>m < length (out ! c). out' ! c ! m = out ! c ! m +
               (if startSample \<le> int m \<and> int m < startSample + numSamples
                then dsp_sample C (nat (int m - startSample)) (oscPhase, s) else 0))"
    using render_Inr(3,4) [OF r] by simp
qed

theorem render_adds_mono_region_witness:
  "\<exists>out' oscPhase' s'.
     render plain_components [[1, 2, 3], [4, 5, 6]] 1 2 0 (one_note_setup plain_components zero_dsp)
       = Inr (out', oscPhase', s')
     \<and> length out' = 2
     \<and> out' ! 0 ! 0 = 1 \<and> out' ! 1 ! 0 = 4
     \<and> 2 < out' ! 0 ! 1 \<and> 5 < out' ! 1 ! 1
     \<and> out' ! 0 ! 1 - 2 = out' ! 1 ! 1 - 5
     \<and> out' ! 0 ! 2 - 3 = out' ! 1 ! 2 - 6"
proof -
  let ?buf = "[[1, 2, 3], [4, 5, 6 :: real]]"
  let ?s = "one_note_setup plain_components zero_dsp"
  have fits: "?buf \<noteq> [] \<and> (0::int) \<le> 1
      \<and> (\<forall>k < length ?buf. (1::int) + 2 \<le> int (length (?buf ! k)))"
    by (simp add: less_Suc_eq)
  obtain out' oscPhase' s' where
    r: "render plain_components ?buf 1 2 0 ?s = Inr (out', oscPhase', s')"
    using render_adds_mono_region [of ?buf 1 2 plain_components 0 ?s, THEN conjunct1,
        rule_format, OF fits]
    by (metis prod_cases3)
  note T = render_adds_mono_region [of ?buf 1 2 plain_components 0 ?s out' oscPhase' s',
      THEN conjunct2, rule_format, OF r]
  have len: "length out' = 2" using T by simp
  have e: "out' ! c ! m = ?buf ! c ! m +
             (if (1::int) \<le> int m \<and> int m < 1 + 2
              then dsp_sample plain_components (nat (int m - 1)) (0, ?s) else 0)"
    if "c < length ?buf" "m < length (?buf ! c)" for c m
    using T that by blast
  have pos: "0 < dsp_sample plain_components 0 (0, ?s)"
    using one_note_first_sample_pos [of zero_dsp] by (simp add: dsp_sample_def)
  have v: "out' ! 0 ! 0 = 1" "out' ! 1 ! 0 = 4"
    "out' ! 0 ! 1 = 2 + dsp_sample plain_components 0 (0, ?s)"
    "out' ! 1 ! 1 = 5 + dsp_sample plain_components 0 (0, ?s)"
    "out' ! 0 ! 2 = 3 + dsp_sample plain_components 1 (0, ?s)"
    "out' ! 1 ! 2 = 6 + dsp_sample plain_components 1 (0, ?s)"
    using e [of 0 0] e [of 1 0] e [of 0 1] e [of 1 1] e [of 0 2] e [of 1 2]
    by simp_all
  have "out' ! 0 ! 0 = 1 \<and> out' ! 1 ! 0 = 4
     \<and> 2 < out' ! 0 ! 1 \<and> 5 < out' ! 1 ! 1
     \<and> out' ! 0 ! 1 - 2 = out' ! 1 ! 1 - 5
     \<and> out' ! 0 ! 2 - 3 = out' ! 1 ! 2 - 6"
    unfolding v using pos by simp
  with r len show ?thesis by blast
qed

section \<open>Determinism across runs\<close>

text \<open>
  Claim C4 says that two runs given the same sequence of calls produce the same output
  samples. The phase of the sine anchor is a static local of \<open>render\<close>: it is shared by
  every object of the process and survives \<open>prepare\<close>. With the plain collaborators, the
  run of one note on a fresh object in a fresh process writes a positive sample and leaves
  the static phase at \<open>1 / 4\<close>; the same run on another fresh object, later in the same
  process, writes the sample 0.
\<close>

theorem second_run_differs:
  "\<exists>y1 s1 s2.
     one_note_run plain_components (0, s0) = Inr ([[y1]], 1 / 4, s1)
     \<and> 0 < y1
     \<and> one_note_run plain_components (1 / 4, s0) = Inr ([[0]], 1 / 2, s2)"
proof -
  let ?C = plain_components
  let ?s = "one_note_setup ?C s0"
  let ?e = "11 / 20 * (1 - exp (- 1 / 48 :: real))"
  have epos: "0 < ?e" by simp
  have o1: "out_oscPhase (render_sample ?C 0 ?s) = 1 / 4"
    using one_note_oscPhase [of 0 ?C s0] by simp
  have o2: "out_oscPhase (render_sample ?C (1 / 4) ?s) = 1 / 2"
    using one_note_oscPhase [of "1 / 4" ?C s0] by simp
  have s1: "sin (1 / 4 * 2 * pi) = 1"
  proof -
    have "1 / 4 * 2 * pi = pi / 2" by simp
    then show ?thesis by (simp only: sin_pi_half)
  qed
  have s2: "sin (1 / 2 * 2 * pi) = 0" by simp
  define y1 where "y1 = out_y (render_sample ?C 0 ?s)"
  have y1: "0 < y1"
    unfolding y1_def
    by (rule plain_render_sample_y_pos)
       (simp_all only: o1 s1 one_note_first_env plain_setup_fields epos zero_less_one)
  have y2: "out_y (render_sample ?C (1 / 4) ?s) = 0"
    by (rule plain_render_sample_y_zero) (simp only: o2 s2)
  have r1: "one_note_run ?C (0, s0) = Inr ([[y1]], 1 / 4, out_dsp (render_sample ?C 0 ?s))"
    by (simp add: one_note_run_def on_object_def Let_def render_one_sample o1 y1_def)
  have r2: "one_note_run ?C (1 / 4, s0) = Inr ([[0]], 1 / 2, out_dsp (render_sample ?C (1 / 4) ?s))"
    by (simp add: one_note_run_def on_object_def Let_def render_one_sample o2 y2)
  from r1 y1 r2 show ?thesis by blast
qed

end
